theory Spec2Isabelle
  imports Complex_Main "HOL-Library.Sublist"
begin

section \<open>OSM Med Spa Seeder: a shallow embedding of main.js\<close>

text \<open>
  The repository holds three revisions of one script. The embedding follows the last one
  (``resilient, no node-fetch'', the second half of \<^verbatim>\<open>src/main.js\<close>), which is the
  revision the specification describes: it has \<^verbatim>\<open>normalizeInput\<close>, the retry loop and
  the top-level \<^verbatim>\<open>try/catch\<close>. Where an earlier revision differs in a function that is
  modelled here, the difference is stated beside the definition.
\<close>

subsection \<open>Strings\<close>

text \<open>
  A JavaScript string is a sequence of UTF-16 code units. The model covers the strings whose
  code units are below 256 (ASCII and Latin-1), one \<^typ>\<open>char\<close> per code unit. On that
  range \<^verbatim>\<open>String.prototype.trim\<close> removes TAB, LF, VT, FF, CR, SPACE and NBSP, and
  \<^verbatim>\<open>toLowerCase\<close> adds 32 to A..Z and to U+00C0..U+00DE except U+00D7.
\<close>

definition isWhiteSpace :: "char \<Rightarrow> bool" where
  "isWhiteSpace c =
     (c \<in> {CHR 0x09, CHR 0x0A, CHR 0x0B, CHR 0x0C, CHR 0x0D, CHR 0x20, CHR 0xA0})"

definition trim :: "string \<Rightarrow> string" where
  "trim s = rev (dropWhile isWhiteSpace (rev (dropWhile isWhiteSpace s)))"

definition lowerChar :: "char \<Rightarrow> char" where
  "lowerChar c =
     (let n = (of_char c :: nat) in
      if (65 \<le> n \<and> n \<le> 90) \<or> (192 \<le> n \<and> n \<le> 222 \<and> n \<noteq> 215)
      then char_of (n + 32) else c)"

definition toLowerCase :: "string \<Rightarrow> string" where
  "toLowerCase s = map lowerChar s"

text \<open>\<^verbatim>\<open>xs.join(sep)\<close> on an array of strings.\<close>

fun join :: "'a list \<Rightarrow> 'a list list \<Rightarrow> 'a list" where
  "join sep [] = []"
| "join sep [x] = x"
| "join sep (x # y # ys) = x @ sep @ join sep (y # ys)"

subsection \<open>Output records and the deduplicator\<close>

text \<open>
  The object literal returned by the \<^verbatim>\<open>rows\<close> map of \<^verbatim>\<open>Actor.main\<close>; every field is a
  string there (\<^verbatim>\<open>lat\<close>, \<^verbatim>\<open>lon\<close> and \<^verbatim>\<open>confidence\<close> are results of \<^verbatim>\<open>toFixed\<close>).
  The field \<^verbatim>\<open>notes\<close> is written \<open>notes'\<close>: the plain name is reserved in Isabelle.
\<close>

record row =
  name :: string
  domain :: string
  city :: string
  category :: string
  source_url :: string
  lat :: string
  lon :: string
  confidence :: string
  notes' :: string

text \<open>
  \<^verbatim>\<open>const key = r.domain || `${(r.name||'').toLowerCase()}|${(r.city||'').toLowerCase()}`\<close>:
  the empty string is the only falsy string.
\<close>

definition dedupKey :: "row \<Rightarrow> string" where
  "dedupKey r =
     (if domain r \<noteq> [] then domain r
      else toLowerCase (name r) @ ''|'' @ toLowerCase (city r))"

text \<open>
  The \<^verbatim>\<open>for (const r of rows)\<close> loop of \<^verbatim>\<open>dedupeRows\<close>, with its two mutable locals
  \<^verbatim>\<open>seen\<close> (a \<^verbatim>\<open>Set\<close>) and \<^verbatim>\<open>out\<close> (an array) passed as arguments. The loop is
  the same in all three revisions.
\<close>

fun dedupe_loop :: "string set \<Rightarrow> row list \<Rightarrow> row list \<Rightarrow> row list" where
  "dedupe_loop seen out [] = out"
| "dedupe_loop seen out (r # rows) =
     (let key = dedupKey r in
      if key \<in> seen then dedupe_loop seen out rows
      else dedupe_loop (insert key seen) (out @ [r]) rows)"

definition dedupeRows :: "row list \<Rightarrow> row list" where
  "dedupeRows rows = dedupe_loop {} [] rows"

text \<open>Sample records for the concrete instances below.\<close>

definition mk_row :: "string \<Rightarrow> string \<Rightarrow> string \<Rightarrow> row" where
  "mk_row n d c = \<lparr>name = n, domain = d, city = c, category = ''spa'', source_url = '''',
     lat = '''', lon = '''', confidence = ''0.50'', notes' = ''''\<rparr>"

definition sample_rows :: "row list" where
  "sample_rows =
     [mk_row ''Glow'' ''a.com'' ''Austin'', mk_row ''Luxe'' '''' ''Austin'',
      mk_row ''Glow Two'' ''a.com'' ''Dallas'', mk_row ''LUXE'' '''' ''AUSTIN'',
      mk_row ''Luxe'' '''' ''Dallas'']"


subsection \<open>Query builder: \<^verbatim>\<open>buildRegex\<close>\<close>

definition backslash :: char where
  "backslash = CHR 0x5C"

text \<open>The character class of \<^verbatim>\<open>/[.*+?^${}()|[\]\\]/g\<close>.\<close>

definition regexSpecials :: "char list" where
  "regexSpecials = ''.*+?^${}()|[]'' @ [backslash]"

text \<open>
  \<^verbatim>\<open>k.replace(/[.*+?^${}()|[\]\\]/g, '\\$&')\<close>: every match of the class is replaced by a
  backslash followed by the match, every other character is copied.
\<close>

definition escapeChar :: "char \<Rightarrow> string" where
  "escapeChar c = (if c \<in> set regexSpecials then [backslash, c] else [c])"

definition escapeRegex :: "string \<Rightarrow> string" where
  "escapeRegex k = concat (map escapeChar k)"

text \<open>The JavaScript literal \<^verbatim>\<open>'med\\s*spa|medspa|aesthetic|inject|botox|laser|hydrafacial'\<close>.\<close>

definition defaultPattern :: string where
  "defaultPattern =
     ''med'' @ [backslash] @ ''s*spa|medspa|aesthetic|inject|botox|laser|hydrafacial''"

text \<open>
  \<^verbatim>\<open>buildRegex\<close> of both revisions in \<^verbatim>\<open>src/main.js\<close>. The argument is the keyword
  array (\<^verbatim>\<open>keywords || []\<close>), its elements already strings (\<^verbatim>\<open>String(k)\<close>);
  \<^verbatim>\<open>filter(Boolean)\<close> drops the empty strings.
\<close>

definition buildRegex :: "string list \<Rightarrow> string" where
  "buildRegex kws =
     (let safe = map escapeRegex (filter (\<lambda>k. k \<noteq> []) (map trim kws));
          joined = (if safe \<noteq> [] then join ''|'' safe else defaultPattern)
      in ''(?i)('' @ joined @ '')'')"

text \<open>
  The earliest revision (\<^verbatim>\<open>src/unnamed/part_000\<close>) escapes and joins only: it neither trims
  nor drops empty keywords, and has no default pattern.
\<close>

definition buildRegex_first :: "string list \<Rightarrow> string" where
  "buildRegex_first kws = ''(?i)('' @ join ''|'' (map escapeRegex kws) @ '')''"

text \<open>
  How a regular-expression engine reads a pattern, character by character: a backslash
  followed by one of the special characters stands for that character taken literally, a
  backslash followed by another character is an escape such as \<^verbatim>\<open>\s\<close>, a special
  character on its own is an operator, and every other character is a literal.
\<close>

datatype token = Lit char | Special char | Escape char

fun readPattern :: "string \<Rightarrow> token list" where
  "readPattern [] = []"
| "readPattern [c] = [if c \<in> set regexSpecials then Special c else Lit c]"
| "readPattern (c # d # ds) =
     (if c = backslash then (if d \<in> set regexSpecials then Lit d else Escape d) # readPattern ds
      else (if c \<in> set regexSpecials then Special c else Lit c) # readPattern (d # ds))"

subsection \<open>Input normalizer: \<^verbatim>\<open>toNum\<close> and \<^verbatim>\<open>normalizeInput\<close>\<close>

text \<open>
  A JavaScript number is a finite value, NaN or an infinity. Finite values are modelled by
  the rational they denote; the only operations the script applies to them are comparisons
  with \<open>\<plusminus>90\<close> and \<open>\<plusminus>180\<close> and \<^verbatim>\<open>Number.isFinite\<close>.
\<close>

datatype jsnum = Fin rat | NaN | PosInf | NegInf

text \<open>The values an input field can hold after \<^verbatim>\<open>JSON.parse\<close>; \<open>Undefined\<close> is a missing field.\<close>

datatype jsval = Undefined | Null | JBool bool | JNum jsnum | JStr string

text \<open>
  \<^verbatim>\<open>Number(v)\<close>: \<^verbatim>\<open>undefined\<close> gives NaN, \<^verbatim>\<open>null\<close> gives 0, \<^verbatim>\<open>true\<close> gives 1,
  \<^verbatim>\<open>false\<close> gives 0, a string that is empty or only white space gives 0. For every other
  string the language's string-to-number conversion \<open>strNum\<close> is a parameter.
\<close>

definition toNumber :: "(string \<Rightarrow> jsnum) \<Rightarrow> jsval \<Rightarrow> jsnum" where
  "toNumber strNum v =
     (case v of
        Undefined \<Rightarrow> NaN
      | Null \<Rightarrow> Fin 0
      | JBool b \<Rightarrow> Fin (if b then 1 else 0)
      | JNum n \<Rightarrow> n
      | JStr s \<Rightarrow> if trim s = [] then Fin 0 else strNum s)"

text \<open>
  \<^verbatim>\<open>function toNum(v, def) { const n = Number(v); return Number.isFinite(n) ? n : def; }\<close>
  (The first revision has no \<^verbatim>\<open>toNum\<close> and no \<^verbatim>\<open>normalizeInput\<close>: it reads
  \<^verbatim>\<open>Number(input.bbox_south ?? 29.10)\<close> and checks no range.)
\<close>

definition toNum :: "(string \<Rightarrow> jsnum) \<Rightarrow> jsval \<Rightarrow> rat \<Rightarrow> rat" where
  "toNum strNum v def = (case toNumber strNum v of Fin n \<Rightarrow> n | _ \<Rightarrow> def)"

text \<open>
  \<^verbatim>\<open>a <= b\<close> on numbers: false as soon as one side is NaN. In \<^verbatim>\<open>-90 <= bbox.south\<close>
  one side is a number, so the other side is converted with \<^verbatim>\<open>Number\<close> first.
\<close>

fun num_le :: "jsnum \<Rightarrow> jsnum \<Rightarrow> bool" where
  "num_le NaN _ = False"
| "num_le _ NaN = False"
| "num_le NegInf _ = True"
| "num_le _ PosInf = True"
| "num_le (Fin a) (Fin b) = (a \<le> b)"
| "num_le PosInf _ = False"
| "num_le _ NegInf = False"

record bbox =
  south :: jsval
  west :: jsval
  north :: jsval
  east :: jsval

text \<open>
  The input object of the actor. \<open>in_bbox\<close> is \<^verbatim>\<open>input.bbox\<close> when it is truthy,
  \<open>in_keywords\<close> is \<^verbatim>\<open>input.keywords\<close> when it is an array, \<open>keyword_list\<close> is
  \<^verbatim>\<open>input.keyword_list\<close> when it is a string, \<open>in_city\<close> is \<^verbatim>\<open>input.city\<close> when it
  is a string.
\<close>

record input =
  in_bbox :: "bbox option"
  bbox_south :: jsval
  bbox_west :: jsval
  bbox_north :: jsval
  bbox_east :: jsval
  in_keywords :: "string list option"
  keyword_list :: "string option"
  in_city :: "string option"

record config =
  cfg_bbox :: bbox
  cfg_keywords :: "string list"
  cfg_city :: string

text \<open>
  A thrown \<^verbatim>\<open>Error\<close>: its message and its stack. For an error the script creates itself,
  the stack is modelled by its first line; the frames below it depend on the runtime.
\<close>

datatype js_error = Error (message: string) (stack: string)

definition newError :: "string \<Rightarrow> js_error" where
  "newError msg = Error msg (''Error: '' @ msg)"

text \<open>\<^verbatim>\<open>s.split(',')\<close>\<close>

fun split_comma :: "string \<Rightarrow> string list" where
  "split_comma [] = [[]]"
| "split_comma (c # cs) =
     (if c = CHR '','' then [] # split_comma cs
      else (case split_comma cs of [] \<Rightarrow> [[c]] | w # ws \<Rightarrow> (c # w) # ws))"

definition defaultKws :: "string list" where
  "defaultKws = [''med spa'', ''medspa'', ''aesthetic'', ''inject'', ''botox'', ''laser'', ''hydrafacial'']"

definition in_range :: "(string \<Rightarrow> jsnum) \<Rightarrow> rat \<Rightarrow> jsval \<Rightarrow> bool" where
  "in_range strNum bound v =
     (num_le (Fin (- bound)) (toNumber strNum v) \<and> num_le (toNumber strNum v) (Fin bound))"

definition normalizeInput :: "(string \<Rightarrow> jsnum) \<Rightarrow> input \<Rightarrow> js_error + config" where
  "normalizeInput strNum inp =
     (let bbox = (case in_bbox inp of
                    Some b \<Rightarrow> b
                  | None \<Rightarrow>
                      \<lparr>south = JNum (Fin (toNum strNum (bbox_south inp) (2910 / 100))),
                       west = JNum (Fin (toNum strNum (bbox_west inp) (- 9885 / 100))),
                       north = JNum (Fin (toNum strNum (bbox_north inp) (2975 / 100))),
                       east = JNum (Fin (toNum strNum (bbox_east inp) (- 9810 / 100)))\<rparr>);
          kws = (case in_keywords inp of
                   Some (k # ks) \<Rightarrow> k # ks
                 | _ \<Rightarrow>
                     (case keyword_list inp of
                        Some s \<Rightarrow> filter (\<lambda>k. k \<noteq> []) (map trim (split_comma s))
                      | None \<Rightarrow> defaultKws));
          city' = (case in_city inp of
                     None \<Rightarrow> ''San Antonio''
                   | Some c \<Rightarrow> if c = [] then ''San Antonio'' else c);
          ok = (in_range strNum 90 (south bbox) \<and> in_range strNum 90 (north bbox) \<and>
                in_range strNum 180 (west bbox) \<and> in_range strNum 180 (east bbox))
      in if \<not> ok then Inl (newError ''Invalid bbox coordinates'')
         else Inr \<lparr>cfg_bbox = bbox, cfg_keywords = kws, cfg_city = city'\<rparr>)"

text \<open>The empty input object \<^verbatim>\<open>{}\<close>.\<close>

definition empty_input :: input where
  "empty_input =
     \<lparr>in_bbox = None, bbox_south = Undefined, bbox_west = Undefined, bbox_north = Undefined,
      bbox_east = Undefined, in_keywords = None, keyword_list = None, in_city = None\<rparr>"

subsection \<open>Record extractor\<close>

text \<open>
  \<^verbatim>\<open>new URL(s).hostname\<close> belongs to the platform, not to the repository. It is a
  parameter \<open>hostname\<close> of the model: \<open>hostname s = None\<close> when the constructor throws,
  \<open>Some h\<close> when it succeeds with host name \<open>h\<close>.

  \<^verbatim>\<open>rootDomain(url)\<close>: the argument is \<open>None\<close> for \<^verbatim>\<open>undefined\<close> or \<^verbatim>\<open>null\<close>;
  \<^verbatim>\<open>!url\<close> is true for these and for the empty string.
\<close>

definition rootDomain :: "(string \<Rightarrow> string option) \<Rightarrow> string option \<Rightarrow> string" where
  "rootDomain hostname url =
     (case url of
        None \<Rightarrow> []
      | Some u \<Rightarrow>
          if u = [] then []
          else (case hostname (if prefix ''http'' u then u else ''http://'' @ u) of
                  None \<Rightarrow> []
                | Some hn \<Rightarrow>
                    let h = toLowerCase hn in if prefix ''www.'' h then drop 4 h else h))"

text \<open>
  What the platform's URL parser answers on the inputs of the examples below: absolute
  http(s) URLs give their host, a string with no scheme (\<^verbatim>\<open>httpbin.org\<close>) and a host
  with a space in it (\<^verbatim>\<open>http://not a url\<close>) make the constructor throw.
\<close>

definition sample_hostname :: "string \<Rightarrow> string option" where
  "sample_hostname s =
     (if s = ''https://www.example.com/page'' then Some ''www.example.com''
      else if s = ''http://glow.com'' then Some ''glow.com''
      else if s = ''http://httpbin.org'' then Some ''httpbin.org''
      else if s = ''httpbin.org'' then None
      else if s = ''http://not a url'' then None
      else None)"

text \<open>A tag value as the script reads it, \<^verbatim>\<open>tags[k] || ''\<close>: a missing tag reads as empty.\<close>

definition tag :: "(string \<rightharpoonup> string) \<Rightarrow> string \<Rightarrow> string" where
  "tag tags k = (case tags k of None \<Rightarrow> [] | Some v \<Rightarrow> v)"

definition categoryFromTags :: "(string \<rightharpoonup> string) \<Rightarrow> string" where
  "categoryFromTags tags =
     (if tags ''leisure'' = Some ''spa'' then ''spa''
      else if tags ''amenity'' = Some ''clinic'' then ''clinic''
      else if tags ''shop'' = Some ''beauty'' then ''beauty''
      else if tag tags ''amenity'' \<noteq> [] then tag tags ''amenity''
      else if tag tags ''leisure'' \<noteq> [] then tag tags ''leisure''
      else tag tags ''shop'')"

definition cityFromTags :: "(string \<rightharpoonup> string) \<Rightarrow> string \<Rightarrow> string" where
  "cityFromTags tags fallbackCity =
     (if tag tags ''addr:city'' \<noteq> [] then tag tags ''addr:city''
      else if tag tags ''is_in:city'' \<noteq> [] then tag tags ''is_in:city''
      else if tag tags ''addr:town'' \<noteq> [] then tag tags ''addr:town''
      else if tag tags ''addr:village'' \<noteq> [] then tag tags ''addr:village''
      else fallbackCity)"

text \<open>
  \<^verbatim>\<open>evidenceNote\<close> of \<^verbatim>\<open>src/main.js\<close>; \<^verbatim>\<open>n.includes(k)\<close> is \<^term>\<open>sublist k n\<close>. (The
  earliest revision does not drop empty keywords and lists the hits in their original case.)
\<close>

definition evidenceNote :: "(string \<rightharpoonup> string) \<Rightarrow> string list \<Rightarrow> string" where
  "evidenceNote tags kws =
     (let n = toLowerCase (tag tags ''name'');
          hits = filter (\<lambda>k. sublist k n) (map toLowerCase (filter (\<lambda>k. k \<noteq> []) kws))
      in if hits \<noteq> [] then ''name_keywords='' @ join '','' hits else [])"

text \<open>Decimal digits of a natural number, as \<^verbatim>\<open>String(n)\<close> prints an integer.\<close>

function show_nat :: "nat \<Rightarrow> string" where
  "show_nat n =
     (if n < 10 then [char_of (48 + n)] else show_nat (n div 10) @ [char_of (48 + n mod 10)])"
  by pat_completeness auto
termination
  by (relation "measure id") auto

declare show_nat.simps [simp del]

text \<open>
  \<^verbatim>\<open>x.toFixed(f)\<close> for \<open>\<bar>x\<bar> < 10\<^sup>2\<^sup>1\<close>: the integer \<open>n\<close> nearest to \<open>\<bar>x\<bar> \<sqdot> 10\<^sup>f\<close>, the larger one
  on a tie, printed with \<open>f\<close> digits after the point and a minus sign when \<open>x < 0\<close>.
\<close>

definition toFixed :: "nat \<Rightarrow> rat \<Rightarrow> string" where
  "toFixed f x =
     (let n = nat \<lfloor>\<bar>x\<bar> * 10 ^ f + 1 / 2\<rfloor>;
          ds = show_nat n;
          padded = replicate (Suc f - length ds) CHR ''0'' @ ds;
          k = length padded - f
      in (if x < 0 then ''-'' else []) @ take k padded @
         (if f = 0 then [] else ''.'' @ drop k padded))"

text \<open>
  A raw element of the response. \<open>el_type\<close> is \<^verbatim>\<open>el.type\<close> when it is a string,
  \<open>el_id\<close> is \<^verbatim>\<open>el.id\<close> (\<open>Undefined\<close> when it is missing),
  \<open>el_lat\<close> and \<open>el_lon\<close> are \<^verbatim>\<open>el.lat\<close> and \<^verbatim>\<open>el.lon\<close> when they are numbers,
  \<open>el_center\<close> is \<^verbatim>\<open>el.center\<close> with its \<^verbatim>\<open>lat\<close> and \<^verbatim>\<open>lon\<close>, \<open>el_tags\<close> is
  \<^verbatim>\<open>el.tags\<close>; \<open>None\<close> stands for a field that is missing or \<^verbatim>\<open>null\<close>.
\<close>

record element =
  el_type :: "string option"
  el_id :: jsval
  el_lat :: "rat option"
  el_lon :: "rat option"
  el_center :: "(rat option \<times> rat option) option"
  el_tags :: "(string \<rightharpoonup> string) option"

definition tags_of :: "element \<Rightarrow> (string \<rightharpoonup> string)" where
  "tags_of el = (case el_tags el of None \<Rightarrow> Map.empty | Some t \<Rightarrow> t)"

text \<open>
  The callback of \<^verbatim>\<open>elements.map\<close> in \<^verbatim>\<open>Actor.main\<close>; \<open>None\<close> is its \<^verbatim>\<open>return null\<close>.
  The text that the template literal \<^verbatim>\<open>${el.id}\<close> puts into the URL is the language's
  conversion of a value to a string, the parameter \<open>str\<close>: it is not the digits of the id
  in general (a number above \<open>2\<^sup>5\<^sup>3\<close> prints rounded, a missing id prints
  \<^verbatim>\<open>undefined\<close>).
\<close>

definition extractRow ::
  "(string \<Rightarrow> string option) \<Rightarrow> (jsval \<Rightarrow> string) \<Rightarrow> string list \<Rightarrow> string \<Rightarrow> element \<Rightarrow>
     row option" where
  "extractRow hostname str kws fallbackCity el =
     (let tags = tags_of el;
          name' = trim (tag tags ''name'')
      in if name' = [] then None
         else
           let website = (if tag tags ''website'' \<noteq> [] then tag tags ''website''
                          else tag tags ''contact:website'');
               domain' = rootDomain hostname (Some website);
               lat' = (case el_lat el of
                         Some v \<Rightarrow> Some v
                       | None \<Rightarrow> (case el_center el of None \<Rightarrow> None | Some c \<Rightarrow> fst c));
               lon' = (case el_lon el of
                         Some v \<Rightarrow> Some v
                       | None \<Rightarrow> (case el_center el of None \<Rightarrow> None | Some c \<Rightarrow> snd c));
               category' = categoryFromTags tags;
               cityPicked = cityFromTags tags fallbackCity;
               note = evidenceNote tags kws;
               confidence' = (if domain' \<noteq> [] then 1 else if note \<noteq> [] then 7 / 10 else 1 / 2);
               osmType = (if el_type el = Some ''node'' then ''node'' else ''way'');
               sourceUrl = ''https://www.openstreetmap.org/'' @ osmType @ ''/'' @ str (el_id el)
           in Some \<lparr>name = name', domain = domain', city = cityPicked, category = category',
                    source_url = sourceUrl,
                    lat = (case lat' of Some v \<Rightarrow> toFixed 6 v | None \<Rightarrow> []),
                    lon = (case lon' of Some v \<Rightarrow> toFixed 6 v | None \<Rightarrow> []),
                    confidence = toFixed 2 confidence', notes' = note\<rparr>)"

text \<open>\<^verbatim>\<open>elements.map(...).filter(Boolean)\<close>\<close>

definition extractRows ::
  "(string \<Rightarrow> string option) \<Rightarrow> (jsval \<Rightarrow> string) \<Rightarrow> string list \<Rightarrow> string \<Rightarrow> element list \<Rightarrow>
     row list" where
  "extractRows hostname str kws fallbackCity els =
     List.map_filter (extractRow hostname str kws fallbackCity) els"

text \<open>Sample elements for the concrete instances below.\<close>

definition glow_spa :: element where
  "glow_spa =
     \<lparr>el_type = Some ''node'', el_id = JNum (Fin 101), el_lat = Some (294241 / 10000),
      el_lon = Some (- (984937 / 10000)), el_center = None,
      el_tags = Some [''leisure'' \<mapsto> ''spa'', ''name'' \<mapsto> ''Glow Med Spa'',
                      ''website'' \<mapsto> ''http://glow.com'']\<rparr>"

definition luxe :: element where
  "luxe =
     \<lparr>el_type = Some ''relation'', el_id = JNum (Fin 2024), el_lat = None, el_lon = None,
      el_center = Some (Some (59 / 2), Some (- (197 / 2))),
      el_tags = Some [''shop'' \<mapsto> ''beauty'', ''name'' \<mapsto> ''Luxe Aesthetics'']\<rparr>"

definition unnamed :: element where
  "unnamed =
     \<lparr>el_type = None, el_id = JNum (Fin 7), el_lat = None, el_lon = None, el_center = None,
      el_tags = Some [''amenity'' \<mapsto> ''clinic'', ''name'' \<mapsto> ''   '']\<rparr>"

subsection \<open>Endpoint client: \<^verbatim>\<open>queryOverpass\<close>\<close>

definition OVERPASS_ENDPOINTS :: "string list" where
  "OVERPASS_ENDPOINTS =
     [''https://overpass-api.de/api/interpreter'',
      ''https://overpass.kumi.systems/api/interpreter'',
      ''https://overpass.openstreetmap.ru/api/interpreter'']"

text \<open>
  What one \<^verbatim>\<open>fetch\<close> call can do: reject (a transport failure, with the error it
  throws), or resolve with a response. Of a response the script reads the status
  (\<^verbatim>\<open>res.ok\<close> is true for 200..299), the \<^verbatim>\<open>content-type\<close> header (\<open>None\<close> when it is
  missing) and \<^verbatim>\<open>res.json()\<close>, which throws on a body that is not JSON. Of the parsed body
  the script reads \<^verbatim>\<open>json?.elements\<close>: \<open>Some els\<close> when that is an array.
\<close>

type_synonym json = "element list option"

record response =
  status :: nat
  content_type :: "string option"
  body :: "js_error + json"

datatype outcome = Rejects js_error | Resolves response

text \<open>
  The network is a parameter: the outcome of the \<open>a\<close>-th attempt on an endpoint with a
  query. The effects of a run are recorded in the order the script performs them; calls of
  the logger are not recorded.
\<close>

type_synonym network = "string \<Rightarrow> string \<Rightarrow> nat \<Rightarrow> outcome"

record summary =
  found :: nat
  deduped :: nat
  sum_bbox :: bbox
  sum_keywords :: "string list"
  sum_city :: string
  hint :: string

datatype effect =
    Fetch string string
  | Sleep nat
  | PushData "row list"
  | SetValue_RUN_SUMMARY summary
  | SetValue_ERROR string string

definition res_ok :: "response \<Rightarrow> bool" where
  "res_ok res = (200 \<le> status res \<and> status res \<le> 299)"

text \<open>The body of the \<^verbatim>\<open>try\<close> block: \<open>Inl e\<close> is the error that the \<^verbatim>\<open>catch\<close> receives.\<close>

definition attempt :: "network \<Rightarrow> string \<Rightarrow> string \<Rightarrow> nat \<Rightarrow> js_error + json" where
  "attempt net ep ql a =
     (case net ep ql a of
        Rejects e \<Rightarrow> Inl e
      | Resolves res \<Rightarrow>
          let ct = (case content_type res of None \<Rightarrow> [] | Some c \<Rightarrow> c)
          in if \<not> res_ok res then Inl (newError (''HTTP '' @ show_nat (status res)))
             else if \<not> sublist ''application/json'' ct
               then Inl (newError (''Unexpected content-type: '' @ ct))
             else body res)"

text \<open>
  \<^verbatim>\<open>for (let attempt = 1; attempt <= 3; attempt++)\<close>: either the function returns from
  inside the loop, or the loop ends and leaves \<^verbatim>\<open>lastErr\<close>. After a failed attempt the
  script sleeps \<^verbatim>\<open>700 * attempt\<close> milliseconds. (The first revision tries every endpoint
  once, with no delay and no check of the content type.)
\<close>

datatype loop_exit = Return json | Fallthrough "js_error option"

function attempts ::
  "network \<Rightarrow> string \<Rightarrow> string \<Rightarrow> nat \<Rightarrow> js_error option \<Rightarrow> loop_exit \<times> effect list" where
  "attempts net ep ql a lastErr =
     (if a \<le> 3 then
        (case attempt net ep ql a of
           Inr j \<Rightarrow> (Return j, [Fetch ep ql])
         | Inl e \<Rightarrow>
             (case attempts net ep ql (a + 1) (Some e) of
                (r, tr) \<Rightarrow> (r, [Fetch ep ql, Sleep (700 * a)] @ tr)))
      else (Fallthrough lastErr, []))"
  by pat_completeness auto
termination
  by (relation "measure (\<lambda>(net, ep, ql, a, lastErr). 4 - a)") auto

declare attempts.simps [simp del]

text \<open>\<^verbatim>\<open>for (const ep of OVERPASS_ENDPOINTS)\<close> and the final \<^verbatim>\<open>throw\<close>.\<close>

fun endpoints_loop ::
  "network \<Rightarrow> string \<Rightarrow> string list \<Rightarrow> js_error option \<Rightarrow> (js_error + json) \<times> effect list" where
  "endpoints_loop net ql [] lastErr =
     (Inl (case lastErr of Some e \<Rightarrow> e | None \<Rightarrow> newError ''All Overpass endpoints failed''), [])"
| "endpoints_loop net ql (ep # eps) lastErr =
     (case attempts net ep ql 1 lastErr of
        (Return j, tr) \<Rightarrow> (Inr j, tr)
      | (Fallthrough lastErr', tr) \<Rightarrow>
          (case endpoints_loop net ql eps lastErr' of (r, tr') \<Rightarrow> (r, tr @ tr')))"

definition queryOverpass :: "network \<Rightarrow> string \<Rightarrow> (js_error + json) \<times> effect list" where
  "queryOverpass net ql = endpoints_loop net ql OVERPASS_ENDPOINTS None"

text \<open>
  The order of delivery attempts the specification describes: the endpoints in list order,
  attempts 1, 2, 3 on each.
\<close>

definition schedule :: "string list \<Rightarrow> (string \<times> nat) list" where
  "schedule eps = concat (map (\<lambda>ep. [(ep, 1), (ep, 2), (ep, 3)]) eps)"

definition failed_attempt :: "network \<Rightarrow> string \<Rightarrow> string \<times> nat \<Rightarrow> bool" where
  "failed_attempt net ql = (\<lambda>(ep, a). isl (attempt net ep ql a))"

definition fetch_and_wait :: "string \<Rightarrow> string \<times> nat \<Rightarrow> effect list" where
  "fetch_and_wait ql = (\<lambda>(ep, a). [Fetch ep ql, Sleep (700 * a)])"

text \<open>
  Sample networks for the concrete instances below: one on which every call is rejected,
  and one whose first endpoint answers 504 three times and whose second endpoint first
  answers with an HTML page and then with a JSON body of two elements that share a website.
\<close>

definition net_down :: network where
  "net_down = (\<lambda>ep ql a. Rejects (Error ''fetch failed'' ''TypeError: fetch failed''))"

definition glow_annex :: element where
  "glow_annex =
     \<lparr>el_type = Some ''way'', el_id = JNum (Fin 102), el_lat = None, el_lon = None, el_center = None,
      el_tags = Some [''shop'' \<mapsto> ''beauty'', ''name'' \<mapsto> ''Glow Annex'',
                      ''contact:website'' \<mapsto> ''http://glow.com'']\<rparr>"

definition net_flaky :: network where
  "net_flaky = (\<lambda>ep ql a.
     if ep = ''https://overpass-api.de/api/interpreter''
       then Resolves \<lparr>status = 504, content_type = Some ''text/html'', body = Inr None\<rparr>
     else if ep = ''https://overpass.kumi.systems/api/interpreter''
       then (if a = 1
             then Resolves \<lparr>status = 200, content_type = Some ''text/html; charset=utf-8'',
                             body = Inl (Error ''Unexpected token <'' ''SyntaxError: Unexpected token <'')\<rparr>
             else Resolves \<lparr>status = 200, content_type = Some ''application/json'',
                             body = Inr (Some [glow_spa, glow_annex])\<rparr>)
     else Rejects (Error ''fetch failed'' ''TypeError: fetch failed''))"

subsection \<open>Run driver: \<^verbatim>\<open>Actor.main\<close>\<close>

text \<open>
  What the run takes from the platform: the URL parser, the string-to-number conversion,
  the conversion of a box coordinate to text inside the template literal, and the network.
  \<^verbatim>\<open>Actor.getInput\<close>, \<^verbatim>\<open>Actor.pushData\<close> and \<^verbatim>\<open>Actor.setValue\<close> are taken to succeed.
\<close>

record platform =
  url_hostname :: "string \<Rightarrow> string option"
  string_to_number :: "string \<Rightarrow> jsnum"
  value_to_string :: "jsval \<Rightarrow> string"
  fetch :: network

definition dquote :: char where
  "dquote = CHR 0x22"

definition newline :: char where
  "newline = CHR 0x0A"

definition quoted :: "string \<Rightarrow> string" where
  "quoted s = dquote # s @ [dquote]"

text \<open>One line of the template, such as \<^verbatim>\<open>node["leisure"="spa"]["name"~"..."](s,w,n,e);\<close>\<close>

definition query_clause :: "string \<Rightarrow> string \<Rightarrow> string \<Rightarrow> string \<Rightarrow> string \<Rightarrow> string" where
  "query_clause kind k v nameRegex box =
     ''        '' @ kind @ ''['' @ quoted k @ ''='' @ quoted v @ ''][''  @ quoted ''name'' @ ''~'' @
     quoted nameRegex @ '']('' @ box @ '');'' @ [newline]"

definition build_query :: "(jsval \<Rightarrow> string) \<Rightarrow> string \<Rightarrow> bbox \<Rightarrow> string" where
  "build_query str nameRegex b =
     (let box = str (south b) @ '','' @ str (west b) @ '','' @ str (north b) @ '','' @ str (east b)
      in [newline] @ ''      [out:json][timeout:120];'' @ [newline] @
         ''      ('' @ [newline] @
         query_clause ''node'' ''leisure'' ''spa'' nameRegex box @
         query_clause ''way '' ''leisure'' ''spa'' nameRegex box @
         query_clause ''node'' ''shop'' ''beauty'' nameRegex box @
         query_clause ''way '' ''shop'' ''beauty'' nameRegex box @
         query_clause ''node'' ''amenity'' ''clinic'' nameRegex box @
         query_clause ''way '' ''amenity'' ''clinic'' nameRegex box @
         ''      );'' @ [newline] @
         ''      out center tags;'' @ [newline] @ ''    '')"

text \<open>\<^verbatim>\<open>await Actor.getInput() || {}\<close>\<close>

definition input_of :: "input option \<Rightarrow> input" where
  "input_of got = (case got of None \<Rightarrow> empty_input | Some i \<Rightarrow> i)"

definition query_of :: "platform \<Rightarrow> config \<Rightarrow> string" where
  "query_of pf cfg =
     build_query (value_to_string pf) (buildRegex (cfg_keywords cfg)) (cfg_bbox cfg)"

text \<open>\<^verbatim>\<open>Array.isArray(json?.elements) ? json.elements : []\<close>\<close>

definition elements_of :: "json \<Rightarrow> element list" where
  "elements_of j = (case j of None \<Rightarrow> [] | Some els \<Rightarrow> els)"

text \<open>
  The \<^verbatim>\<open>try\<close> block of the last revision: its outcome is \<open>Inl err\<close> when a stage throws
  \<open>err\<close>, with the effects performed up to then.
\<close>

definition main_try :: "platform \<Rightarrow> input option \<Rightarrow> (js_error + unit) \<times> effect list" where
  "main_try pf got =
     (case normalizeInput (string_to_number pf) (input_of got) of
        Inl err \<Rightarrow> (Inl err, [])
      | Inr cfg \<Rightarrow>
          (case queryOverpass (fetch pf) (query_of pf cfg) of
             (Inl err, tr) \<Rightarrow> (Inl err, tr)
           | (Inr j, tr) \<Rightarrow>
               let rows = extractRows (url_hostname pf) (value_to_string pf) (cfg_keywords cfg) (cfg_city cfg)
                            (elements_of j);
                   deduped' = dedupeRows rows
               in (Inr (),
                   tr @ [PushData deduped',
                         SetValue_RUN_SUMMARY
                           \<lparr>found = length rows, deduped = length deduped',
                            sum_bbox = cfg_bbox cfg, sum_keywords = cfg_keywords cfg,
                            sum_city = cfg_city cfg,
                            hint = ''Open the Dataset tab to export CSV.''\<rparr>])))"

text \<open>
  The \<^verbatim>\<open>catch\<close> block writes the error record and does not rethrow: the callback given
  to \<^verbatim>\<open>Actor.main\<close> completes normally (\<open>Inr ()\<close>) on both paths. (The earlier
  revisions have no \<^verbatim>\<open>try/catch\<close>: there an error of a stage leaves the callback.)
\<close>

definition main :: "platform \<Rightarrow> input option \<Rightarrow> (js_error + unit) \<times> effect list" where
  "main pf got =
     (case main_try pf got of
        (Inl err, tr) \<Rightarrow> (Inr (), tr @ [SetValue_ERROR (message err) (stack err)])
      | (Inr u, tr) \<Rightarrow> (Inr (), tr))"

text \<open>
  Sample platforms for the concrete instances below. \<open>sample_to_string\<close> lists what the
  conversion of a value to a string gives for the box coordinates and the element ids of the
  samples.
\<close>

definition sample_to_string :: "jsval \<Rightarrow> string" where
  "sample_to_string v =
     (if v = JNum (Fin (291 / 10)) then ''29.1''
      else if v = JNum (Fin (- (1977 / 20))) then ''-98.85''
      else if v = JNum (Fin (119 / 4)) then ''29.75''
      else if v = JNum (Fin (- (981 / 10))) then ''-98.1''
      else if v = JNum (Fin 7) then ''7''
      else if v = JNum (Fin 101) then ''101''
      else if v = JNum (Fin 102) then ''102''
      else if v = JNum (Fin 2024) then ''2024''
      else if v = Undefined then ''undefined''
      else [])"

definition sample_platform :: "network \<Rightarrow> platform" where
  "sample_platform net =
     \<lparr>url_hostname = sample_hostname, string_to_number = (\<lambda>s. NaN),
      value_to_string = sample_to_string, fetch = net\<rparr>"

definition default_config :: config where
  "default_config =
     \<lparr>cfg_bbox = \<lparr>south = JNum (Fin (291 / 10)), west = JNum (Fin (- (1977 / 20))),
                    north = JNum (Fin (119 / 4)), east = JNum (Fin (- (981 / 10)))\<rparr>,
      cfg_keywords = defaultKws, cfg_city = ''San Antonio''\<rparr>"

definition glow_row :: row where
  "glow_row =
     \<lparr>name = ''Glow Med Spa'', domain = ''glow.com'', city = ''San Antonio'', category = ''spa'',
      source_url = ''https://www.openstreetmap.org/node/101'', lat = ''29.424100'',
      lon = ''-98.493700'', confidence = ''1.00'', notes' = ''name_keywords=med spa''\<rparr>"

definition glow_annex_row :: row where
  "glow_annex_row =
     \<lparr>name = ''Glow Annex'', domain = ''glow.com'', city = ''San Antonio'', category = ''beauty'',
      source_url = ''https://www.openstreetmap.org/way/102'', lat = [], lon = [],
      confidence = ''1.00'', notes' = []\<rparr>"

section \<open>Properties\<close>

subsection \<open>The deduplicator\<close>

lemma dedupe_loop_out: "dedupe_loop seen out rows = out @ dedupe_loop seen [] rows"
proof (induction rows arbitrary: seen out)
  case Nil
  show ?case by simp
next
  case (Cons r rows)
  show ?case
  proof (cases "dedupKey r \<in> seen")
    case True
    then show ?thesis using Cons.IH [of seen out] by simp
  next
    case False
    then show ?thesis
      using Cons.IH [of "insert (dedupKey r) seen" "out @ [r]"]
        Cons.IH [of "insert (dedupKey r) seen" "[r]"]
      by simp
  qed
qed

lemma dedupe_loop_Cons:
  "dedupe_loop seen [] (r # rows) =
     (if dedupKey r \<in> seen then dedupe_loop seen [] rows
      else r # dedupe_loop (insert (dedupKey r) seen) [] rows)"
  using dedupe_loop_out [of "insert (dedupKey r) seen" "[r]" rows] by simp

declare dedupe_loop.simps(2) [simp del]

lemma dedupe_loop_subseq: "subseq (dedupe_loop seen [] rows) rows"
  by (induction rows arbitrary: seen) (auto simp: dedupe_loop_Cons)

lemma dedupe_loop_keys:
  "set (map dedupKey (dedupe_loop seen [] rows)) = set (map dedupKey rows) - seen"
  by (induction rows arbitrary: seen) (auto simp: dedupe_loop_Cons)

lemma dedupe_loop_distinct: "distinct (map dedupKey (dedupe_loop seen [] rows))"
proof (induction rows arbitrary: seen)
  case Nil
  show ?case by simp
next
  case (Cons r rows)
  have "dedupKey r \<notin> set (map dedupKey (dedupe_loop (insert (dedupKey r) seen) [] rows))"
    unfolding dedupe_loop_keys by simp
  then show ?case using Cons.IH by (simp add: dedupe_loop_Cons)
qed

lemma dedupe_loop_find:
  "find (\<lambda>x. dedupKey x = k) (dedupe_loop seen [] rows) =
     (if k \<in> seen then None else find (\<lambda>x. dedupKey x = k) rows)"
  by (induction rows arbitrary: seen) (auto simp: dedupe_loop_Cons)

lemma dedupe_loop_fixed:
  "distinct (map dedupKey xs) \<Longrightarrow> set (map dedupKey xs) \<inter> seen = {} \<Longrightarrow>
   dedupe_loop seen [] xs = xs"
proof (induction xs arbitrary: seen)
  case Nil
  show ?case by simp
next
  case (Cons x xs)
  from Cons.prems have "dedupKey x \<notin> seen" by auto
  moreover from Cons.prems have "dedupe_loop (insert (dedupKey x) seen) [] xs = xs"
    by (intro Cons.IH) auto
  ultimately show ?case by (simp add: dedupe_loop_Cons)
qed

lemma filter_key_distinct:
  "distinct (map f xs) \<Longrightarrow> filter (\<lambda>x. f x = k) xs = (case find (\<lambda>x. f x = k) xs of None \<Rightarrow> [] | Some x \<Rightarrow> [x])"
proof (induction xs)
  case Nil
  show ?case by simp
next
  case (Cons x xs)
  show ?case
  proof (cases "f x = k")
    case True
    from Cons.prems have "f x \<notin> f ` set xs" by simp
    with True have "\<forall>y \<in> set xs. f y \<noteq> k" by blast
    then have "filter (\<lambda>x. f x = k) xs = []" by (simp add: filter_empty_conv)
    with True show ?thesis by simp
  next
    case False
    with Cons show ?thesis by simp
  qed
qed

lemma take1_filter_find:
  "take (Suc 0) (filter P xs) = (case find P xs of None \<Rightarrow> [] | Some x \<Rightarrow> [x])"
  by (induction xs) auto

lemma domain_dedupKey: "domain r \<noteq> [] \<Longrightarrow> dedupKey r = domain r"
  by (simp add: dedupKey_def)

lemma find_domain_of_key:
  "d \<noteq> [] \<Longrightarrow> find (\<lambda>r. dedupKey r = d) rows = Some x \<Longrightarrow> domain x = d \<Longrightarrow>
   find (\<lambda>r. domain r = d) rows = Some x"
  by (induction rows) (auto simp: domain_dedupKey split: if_splits)

lemma find_domain_none:
  "d \<noteq> [] \<Longrightarrow> find (\<lambda>r. dedupKey r = d) rows = None \<Longrightarrow>
   find (\<lambda>r. domain r = d) rows = None"
  by (induction rows) (auto simp: domain_dedupKey split: if_splits)

lemma dedupKey_bar: "CHR ''|'' \<notin> set (dedupKey r) \<Longrightarrow> dedupKey r = domain r"
  by (auto simp: dedupKey_def)

lemma dedupeRows_domain_filter:
  assumes "d \<noteq> []"
  shows "filter (\<lambda>r. domain r = d) (dedupeRows rows) =
    (case find (\<lambda>r. dedupKey r = d) rows of None \<Rightarrow> []
     | Some x \<Rightarrow> if domain x = d then [x] else [])"
proof -
  let ?out = "dedupeRows rows"
  have "filter (\<lambda>r. domain r = d) ?out = filter (\<lambda>r. domain r = d) (filter (\<lambda>r. dedupKey r = d) ?out)"
    using assms by (auto simp: domain_dedupKey intro!: filter_cong)
  also have "filter (\<lambda>r. dedupKey r = d) ?out =
      (case find (\<lambda>r. dedupKey r = d) ?out of None \<Rightarrow> [] | Some x \<Rightarrow> [x])"
    by (rule filter_key_distinct) (simp add: dedupeRows_def dedupe_loop_distinct)
  also have "find (\<lambda>r. dedupKey r = d) ?out = find (\<lambda>r. dedupKey r = d) rows"
    by (simp add: dedupeRows_def dedupe_loop_find)
  finally show ?thesis by (simp split: option.splits)
qed

lemma dedupeRows_domain_first:
  assumes d: "d \<noteq> []" and bar: "CHR ''|'' \<notin> set d"
  shows "filter (\<lambda>r. domain r = d) (dedupeRows rows) = take 1 (filter (\<lambda>r. domain r = d) rows)"
proof (cases "find (\<lambda>r. dedupKey r = d) rows")
  case None
  have "find (\<lambda>r. domain r = d) rows = None"
    by (rule find_domain_none [OF d None])
  then show ?thesis using None
    by (simp add: dedupeRows_domain_filter [OF d] take1_filter_find)
next
  case (Some x)
  then have "dedupKey x = d" by (auto simp: find_Some_iff)
  with bar have True: "domain x = d" using dedupKey_bar [of x] by simp
  have "find (\<lambda>r. domain r = d) rows = Some x"
    by (rule find_domain_of_key [OF d Some True])
  then show ?thesis using Some True
    by (simp add: dedupeRows_domain_filter [OF d] take1_filter_find)
qed





lemma dedupeRows_sample:
  "dedupeRows sample_rows =
     [mk_row ''Glow'' ''a.com'' ''Austin'', mk_row ''Luxe'' '''' ''Austin'',
      mk_row ''Luxe'' '''' ''Dallas'']"
  by code_simp


text \<open>
  Claim C9. Deduplication is idempotent: a second pass over the output removes nothing,
  because the dedup keys of the output are pairwise distinct.
\<close>

theorem dedupeRows_idempotent:
  "dedupeRows (dedupeRows rows) = dedupeRows rows \<and>
   distinct (map dedupKey (dedupeRows rows))"
proof
  show "dedupeRows (dedupeRows rows) = dedupeRows rows"
    unfolding dedupeRows_def
    by (rule dedupe_loop_fixed) (simp_all add: dedupe_loop_distinct)
  show "distinct (map dedupKey (dedupeRows rows))"
    by (simp add: dedupeRows_def dedupe_loop_distinct)
qed

subsection \<open>The query builder\<close>

lemma backslash_special: "backslash \<in> set regexSpecials"
  by (simp add: regexSpecials_def)

lemma readPattern_plain: "c \<notin> set regexSpecials \<Longrightarrow> readPattern (c # rest) = Lit c # readPattern rest"
  using backslash_special by (cases rest) auto

lemma readPattern_escaped: "c \<in> set regexSpecials \<Longrightarrow> readPattern (backslash # c # rest) = Lit c # readPattern rest"
  by simp

lemma readPattern_escapeChar: "readPattern (escapeChar c @ rest) = Lit c # readPattern rest"
  by (simp add: escapeChar_def readPattern_plain readPattern_escaped del: readPattern.simps)

lemma readPattern_escapeRegex_append: "readPattern (escapeRegex k @ rest) = map Lit k @ readPattern rest"
  by (induction k) (simp_all add: escapeRegex_def readPattern_escapeChar del: readPattern.simps)

lemma readPattern_bar: "readPattern (CHR ''|'' # rest) = Special CHR ''|'' # readPattern rest"
  by (cases rest) (simp_all add: regexSpecials_def backslash_def)

lemma readPattern_join:
  "readPattern (join ''|'' (map escapeRegex ks)) = join [Special CHR ''|''] (map (map Lit) ks)"
proof (induction ks rule: induct_list012)
  case 1
  show ?case by simp
next
  case (2 k)
  show ?case using readPattern_escapeRegex_append [of k "[]"] by simp
next
  case (3 k k' ks)
  then show ?case by (simp add: readPattern_escapeRegex_append readPattern_bar del: readPattern.simps)
qed


lemma readPattern_join_append:
  "readPattern (join ''|'' (map escapeRegex ks) @ rest) =
     join [Special CHR ''|''] (map (map Lit) ks) @ readPattern rest"
proof (induction ks rule: induct_list012)
  case 1
  show ?case by simp
next
  case (2 k)
  show ?case by (simp add: readPattern_escapeRegex_append del: readPattern.simps)
next
  case (3 k k' ks)
  then show ?case by (simp add: readPattern_escapeRegex_append readPattern_bar del: readPattern.simps)
qed

lemma readPattern_default:
  "readPattern (''(?i)('' @ defaultPattern @ '')'') =
     [Special CHR ''('', Special CHR ''?'', Lit CHR ''i'', Special CHR '')'', Special CHR ''(''] @
     readPattern defaultPattern @ [Special CHR '')'']"
  by code_simp

lemma readPattern_header:
  "readPattern (''(?i)('' @ rest) =
     [Special CHR ''('', Special CHR ''?'', Lit CHR ''i'', Special CHR '')'', Special CHR ''(''] @
     readPattern rest"
  by (cases rest) (simp_all add: regexSpecials_def backslash_def)

lemma readPattern_closing: "readPattern '')'' = [Special CHR '')'']"
  by (simp add: regexSpecials_def)

lemma regexSpecials_set:
  "set regexSpecials =
     {CHR ''.'', CHR ''*'', CHR ''+'', CHR ''?'', CHR ''^'', CHR ''$'', CHR ''{'', CHR ''}'',
      CHR ''('', CHR '')'', CHR ''|'', CHR ''['', CHR '']'', CHR 0x5C}"
  by (simp add: regexSpecials_def backslash_def)

lemma readPattern_default_tokens:
  "readPattern defaultPattern =
     map Lit ''med'' @ [Escape CHR ''s'', Special CHR ''*''] @ map Lit ''spa'' @
     [Special CHR ''|''] @ map Lit ''medspa'' @
     [Special CHR ''|''] @ map Lit ''aesthetic'' @
     [Special CHR ''|''] @ map Lit ''inject'' @
     [Special CHR ''|''] @ map Lit ''botox'' @
     [Special CHR ''|''] @ map Lit ''laser'' @
     [Special CHR ''|''] @ map Lit ''hydrafacial''"
  by code_simp

text \<open>
  Claim C1. \<^verbatim>\<open>buildRegex\<close> trims every keyword, drops the empty ones, puts a backslash
  before every occurrence of the fourteen special characters, writes the results one after
  the other with a \<open>|\<close> before each but the first, and wraps them as \<^verbatim>\<open>(?i)(...)\<close>;
  when no keyword is left it takes the pattern
  \<^verbatim>\<open>med\s*spa|medspa|aesthetic|inject|botox|laser|hydrafacial\<close> in their place. The escaping
  round-trips: an escaped keyword reads back as the keyword's own characters, all literal,
  and the whole pattern reads as the alternation of the literal keywords, the only
  operators being the \<open>|\<close> between two keywords and the wrapping.
\<close>

theorem buildRegex_escapes_literally:
  "buildRegex kws =
     ''(?i)('' @
     (case filter (\<lambda>k. k \<noteq> []) (map trim kws) of
        [] \<Rightarrow> ''med'' @ [CHR 0x5C] @ ''s*spa|medspa|aesthetic|inject|botox|laser|hydrafacial''
      | k # rest \<Rightarrow> escapeRegex k @ concat (map (\<lambda>k'. CHR ''|'' # escapeRegex k') rest)) @
     '')'' \<and>
   escapeRegex k =
     concat (map (\<lambda>c. if c \<in> {CHR ''.'', CHR ''*'', CHR ''+'', CHR ''?'', CHR ''^'', CHR ''$'',
                               CHR ''{'', CHR ''}'', CHR ''('', CHR '')'', CHR ''|'', CHR ''['',
                               CHR '']'', CHR 0x5C}
                      then [CHR 0x5C, c] else [c]) k) \<and>
   readPattern (escapeRegex k) = map Lit k \<and>
   readPattern (buildRegex kws) =
     [Special CHR ''('', Special CHR ''?'', Lit CHR ''i'', Special CHR '')'', Special CHR ''(''] @
     (case filter (\<lambda>k. k \<noteq> []) (map trim kws) of
        [] \<Rightarrow> map Lit ''med'' @ [Escape CHR ''s'', Special CHR ''*''] @ map Lit ''spa'' @
              [Special CHR ''|''] @ map Lit ''medspa'' @
              [Special CHR ''|''] @ map Lit ''aesthetic'' @
              [Special CHR ''|''] @ map Lit ''inject'' @
              [Special CHR ''|''] @ map Lit ''botox'' @
              [Special CHR ''|''] @ map Lit ''laser'' @
              [Special CHR ''|''] @ map Lit ''hydrafacial''
      | k # rest \<Rightarrow> map Lit k @ concat (map (\<lambda>k'. Special CHR ''|'' # map Lit k') rest)) @
     [Special CHR '')'']"
proof (intro conjI)
  let ?ks = "filter (\<lambda>k. k \<noteq> []) (map trim kws)"
  have join_Cons: "join sep (x # xs) = x @ concat (map (\<lambda>y. sep @ y) xs)" for sep x xs
    by (induction xs arbitrary: x) simp_all
  have shape: "buildRegex kws =
     ''(?i)('' @ (if ?ks = [] then defaultPattern else join ''|'' (map escapeRegex ?ks)) @ '')''"
    by (simp add: buildRegex_def Let_def)
  show "buildRegex kws =
     ''(?i)('' @
     (case ?ks of
        [] \<Rightarrow> ''med'' @ [CHR 0x5C] @ ''s*spa|medspa|aesthetic|inject|botox|laser|hydrafacial''
      | k # rest \<Rightarrow> escapeRegex k @ concat (map (\<lambda>k'. CHR ''|'' # escapeRegex k') rest)) @
     '')''"
  proof (cases ?ks)
    case Nil
    then show ?thesis unfolding shape by (simp add: defaultPattern_def backslash_def)
  next
    case (Cons k rest)
    then show ?thesis unfolding shape by (simp add: join_Cons comp_def del: join.simps)
  qed
  show "escapeRegex k =
     concat (map (\<lambda>c. if c \<in> {CHR ''.'', CHR ''*'', CHR ''+'', CHR ''?'', CHR ''^'', CHR ''$'',
                               CHR ''{'', CHR ''}'', CHR ''('', CHR '')'', CHR ''|'', CHR ''['',
                               CHR '']'', CHR 0x5C}
                      then [CHR 0x5C, c] else [c]) k)"
    unfolding escapeRegex_def escapeChar_def regexSpecials_set backslash_def ..
  show "readPattern (escapeRegex k) = map Lit k"
    using readPattern_escapeRegex_append [of k "[]"] by simp
  show "readPattern (buildRegex kws) =
     [Special CHR ''('', Special CHR ''?'', Lit CHR ''i'', Special CHR '')'', Special CHR ''(''] @
     (case ?ks of
        [] \<Rightarrow> map Lit ''med'' @ [Escape CHR ''s'', Special CHR ''*''] @ map Lit ''spa'' @
              [Special CHR ''|''] @ map Lit ''medspa'' @
              [Special CHR ''|''] @ map Lit ''aesthetic'' @
              [Special CHR ''|''] @ map Lit ''inject'' @
              [Special CHR ''|''] @ map Lit ''botox'' @
              [Special CHR ''|''] @ map Lit ''laser'' @
              [Special CHR ''|''] @ map Lit ''hydrafacial''
      | k # rest \<Rightarrow> map Lit k @ concat (map (\<lambda>k'. Special CHR ''|'' # map Lit k') rest)) @
     [Special CHR '')'']"
  proof (cases ?ks)
    case Nil
    then show ?thesis unfolding shape using readPattern_default
      by (simp add: readPattern_default_tokens del: readPattern.simps)
  next
    case (Cons k rest)
    have "readPattern (''(?i)('' @ (join ''|'' (map escapeRegex ?ks) @ '')'')) =
        [Special CHR ''('', Special CHR ''?'', Lit CHR ''i'', Special CHR '')'', Special CHR ''(''] @
        readPattern (join ''|'' (map escapeRegex ?ks) @ '')'')"
      by (rule readPattern_header)
    also have "readPattern (join ''|'' (map escapeRegex ?ks) @ '')'') =
        join [Special CHR ''|''] (map (map Lit) ?ks) @ readPattern '')''"
      by (rule readPattern_join_append)
    also have "readPattern '')'' = [Special CHR '')'']"
      by (rule readPattern_closing)
    finally show ?thesis unfolding shape using Cons
      by (simp add: join_Cons comp_def del: readPattern.simps join.simps)
  qed
qed

theorem buildRegex_escapes_literally_witness:
  "buildRegex [''  a.b '', '' '', ''c|d'', ''$5 (x)''] =
     ''(?i)(a'' @ [CHR 0x5C] @ ''.b|c'' @ [CHR 0x5C] @ ''|d|'' @ [CHR 0x5C] @ ''$5 '' @
        [CHR 0x5C] @ ''(x'' @ [CHR 0x5C] @ ''))'' \<and>
   buildRegex ['' '', ''''] =
     ''(?i)(med'' @ [CHR 0x5C] @ ''s*spa|medspa|aesthetic|inject|botox|laser|hydrafacial)'' \<and>
   readPattern (buildRegex [''  a.b '', '' '', ''c|d'']) =
     [Special CHR ''('', Special CHR ''?'', Lit CHR ''i'', Special CHR '')'', Special CHR ''('',
      Lit CHR ''a'', Lit CHR ''.'', Lit CHR ''b'', Special CHR ''|'',
      Lit CHR ''c'', Lit CHR ''|'', Lit CHR ''d'', Special CHR '')'']"
proof (intro conjI)
  note four = buildRegex_escapes_literally [of "[''  a.b '', '' '', ''c|d'', ''$5 (x)'']" "[]"]
  note none = buildRegex_escapes_literally [of "['' '', '''']" "[]"]
  note three = buildRegex_escapes_literally [of "[''  a.b '', '' '', ''c|d'']" "[]"]
  show "buildRegex [''  a.b '', '' '', ''c|d'', ''$5 (x)''] =
     ''(?i)(a'' @ [CHR 0x5C] @ ''.b|c'' @ [CHR 0x5C] @ ''|d|'' @ [CHR 0x5C] @ ''$5 '' @
        [CHR 0x5C] @ ''(x'' @ [CHR 0x5C] @ ''))''"
    using four [THEN conjunct1]
    by (simp add: trim_def isWhiteSpace_def escapeRegex_def escapeChar_def regexSpecials_def
        backslash_def)
  show "buildRegex ['' '', ''''] =
     ''(?i)(med'' @ [CHR 0x5C] @ ''s*spa|medspa|aesthetic|inject|botox|laser|hydrafacial)''"
    using none [THEN conjunct1] by (simp add: trim_def isWhiteSpace_def)
  show "readPattern (buildRegex [''  a.b '', '' '', ''c|d'']) =
     [Special CHR ''('', Special CHR ''?'', Lit CHR ''i'', Special CHR '')'', Special CHR ''('',
      Lit CHR ''a'', Lit CHR ''.'', Lit CHR ''b'', Special CHR ''|'',
      Lit CHR ''c'', Lit CHR ''|'', Lit CHR ''d'', Special CHR '')'']"
    using three [THEN conjunct2, THEN conjunct2, THEN conjunct2]
    by (simp add: trim_def isWhiteSpace_def del: readPattern.simps)
qed

lemma buildRegex_sample:
  "buildRegex [''  a.b '', '' '', ''c|d'', ''$5 (x)''] =
     ''(?i)(a'' @ [CHR 0x5C] @ ''.b|c'' @ [CHR 0x5C] @ ''|d|'' @ [CHR 0x5C] @ ''$5 '' @
        [CHR 0x5C] @ ''(x'' @ [CHR 0x5C] @ ''))''"
  by code_simp

lemma buildRegex_first_differs:
  "buildRegex_first [] = ''(?i)()'' \<and> buildRegex [] = ''(?i)('' @ defaultPattern @ '')'' \<and>
   buildRegex_first ['' a ''] = ''(?i)( a )'' \<and> buildRegex ['' a ''] = ''(?i)(a)''"
  by code_simp

subsection \<open>The input normalizer\<close>

lemma num_le_Fin_iff:
  "num_le (Fin a) n \<and> num_le n (Fin b) \<longleftrightarrow> (\<exists>q. n = Fin q \<and> a \<le> q \<and> q \<le> b)"
  by (cases n) auto

lemma in_range_iff:
  "in_range strNum b v \<longleftrightarrow> (\<exists>q. toNumber strNum v = Fin q \<and> - b \<le> q \<and> q \<le> b)"
  by (simp add: in_range_def num_le_Fin_iff)

text \<open>
  \<^verbatim>\<open>toNum\<close> falls back to the default exactly when \<^verbatim>\<open>Number(v)\<close> is not finite, and
  \<^verbatim>\<open>normalizeInput\<close> throws exactly when a coordinate of the resolved box, converted to a
  number, is not a finite value within its range.
\<close>

lemma toNum_cases:
  "toNum strNum v def = (case toNumber strNum v of Fin n \<Rightarrow> n | NaN \<Rightarrow> def | PosInf \<Rightarrow> def | NegInf \<Rightarrow> def)"
  by (simp add: toNum_def split: jsnum.splits)

lemma normalizeInput_throws_iff:
  "(\<exists>e. normalizeInput strNum inp = Inl e) \<longleftrightarrow>
     (let b = (case in_bbox inp of
                 Some b \<Rightarrow> b
               | None \<Rightarrow>
                   \<lparr>south = JNum (Fin (toNum strNum (bbox_south inp) (2910 / 100))),
                    west = JNum (Fin (toNum strNum (bbox_west inp) (- 9885 / 100))),
                    north = JNum (Fin (toNum strNum (bbox_north inp) (2975 / 100))),
                    east = JNum (Fin (toNum strNum (bbox_east inp) (- 9810 / 100)))\<rparr>)
      in \<not> (in_range strNum 90 (south b) \<and> in_range strNum 90 (north b) \<and>
             in_range strNum 180 (west b) \<and> in_range strNum 180 (east b)))"
  by (simp add: normalizeInput_def Let_def)

lemma normalizeInput_throws_message:
  "normalizeInput strNum inp = Inl e \<Longrightarrow> e = newError ''Invalid bbox coordinates''"
  by (simp add: normalizeInput_def Let_def split: if_splits)

text \<open>
  Claim C4, at the input \<^verbatim>\<open>{ bbox_south: "", bbox_north: null }\<close>. Both fields are
  non-numeric, and \<^verbatim>\<open>Number\<close> converts both to 0, which is finite: \<^verbatim>\<open>toNum\<close> keeps 0 and
  the defaults 29.10 and 29.75 are not substituted. The two missing fields get their
  defaults, and the box passes the range check.
\<close>

theorem normalizeInput_blank_field:
  "normalizeInput strNum (empty_input\<lparr>bbox_south := JStr '''', bbox_north := Null\<rparr>) =
     Inr \<lparr>cfg_bbox = \<lparr>south = JNum (Fin 0), west = JNum (Fin (- 9885 / 100)),
                       north = JNum (Fin 0), east = JNum (Fin (- 9810 / 100))\<rparr>,
          cfg_keywords = defaultKws, cfg_city = ''San Antonio''\<rparr>"
  by (simp add: normalizeInput_def empty_input_def toNum_def toNumber_def in_range_def trim_def)

subsection \<open>The record extractor\<close>

lemma dropWhile_rev_dropWhile:
  "dropWhile P (rev (dropWhile P (rev (dropWhile P s)))) = rev (dropWhile P (rev (dropWhile P s)))"
proof -
  define t where "t = dropWhile P s"
  define u where "u = rev (dropWhile P (rev t))"
  have "dropWhile P u = u"
  proof (cases u)
    case Nil
    then show ?thesis by simp
  next
    case (Cons a u')
    have "rev t = takeWhile P (rev t) @ dropWhile P (rev t)" by simp
    then have "t = u @ rev (takeWhile P (rev t))"
      unfolding u_def by (metis rev_append rev_rev_ident)
    with Cons have t: "t = a # u' @ rev (takeWhile P (rev t))" by simp
    then have "t \<noteq> []" and "hd t = a" by (metis list.distinct(1), metis list.sel(1))
    then have "\<not> P a" using hd_dropWhile [of P s] by (simp add: t_def)
    with Cons show ?thesis by simp
  qed
  then show ?thesis by (simp add: u_def t_def)
qed

lemma trim_blank:
  assumes "\<forall>c \<in> set v. isWhiteSpace c"
  shows "trim v = []"
proof -
  have "dropWhile isWhiteSpace v = []"
    using assms by (simp add: dropWhile_eq_Nil_conv)
  then show ?thesis
    unfolding trim_def by (simp only: rev.simps dropWhile.simps)
qed

lemma trim_idem: "trim (trim s) = trim s"
  by (simp add: trim_def dropWhile_rev_dropWhile dropWhile_idem)

lemma set_extractRows:
  "r \<in> set (extractRows hostname str kws fb els) \<longleftrightarrow>
     (\<exists>el \<in> set els. extractRow hostname str kws fb el = Some r)"
  unfolding extractRows_def by (induction els) (auto split: option.splits)

lemma extractRow_named:
  assumes "extractRow hostname str kws fb el = Some r"
  shows "trim (tag (tags_of el) ''name'') \<noteq> []"
  using assms by (cases "trim (tag (tags_of el) ''name'') = []") (simp_all add: extractRow_def Let_def)

lemma extractRow_fields:
  assumes "extractRow hostname str kws fb el = Some r"
  shows "name r = trim (tag (tags_of el) ''name'')"
    and "domain r =
           rootDomain hostname
             (Some (if tag (tags_of el) ''website'' \<noteq> [] then tag (tags_of el) ''website''
                    else tag (tags_of el) ''contact:website''))"
    and "notes' r = evidenceNote (tags_of el) kws"
    and "confidence r =
           toFixed 2 (if domain r \<noteq> [] then 1 else if notes' r \<noteq> [] then 7 / 10 else 1 / 2)"
    and "source_url r =
           ''https://www.openstreetmap.org/'' @
           (if el_type el = Some ''node'' then ''node'' else ''way'') @ ''/'' @ str (el_id el)"
    and "city r = cityFromTags (tags_of el) fb"
    and "category r = categoryFromTags (tags_of el)"
proof -
  note ne = extractRow_named [OF assms]
  from assms ne have r: "r =
      \<lparr>name = trim (tag (tags_of el) ''name''),
       domain = rootDomain hostname
             (Some (if tag (tags_of el) ''website'' \<noteq> [] then tag (tags_of el) ''website''
                    else tag (tags_of el) ''contact:website'')),
       city = cityFromTags (tags_of el) fb, category = categoryFromTags (tags_of el),
       source_url = ''https://www.openstreetmap.org/'' @
           (if el_type el = Some ''node'' then ''node'' else ''way'') @ ''/'' @ str (el_id el),
       lat = (case (case el_lat el of Some v \<Rightarrow> Some v
                    | None \<Rightarrow> (case el_center el of None \<Rightarrow> None | Some c \<Rightarrow> fst c)) of
                Some v \<Rightarrow> toFixed 6 v | None \<Rightarrow> []),
       lon = (case (case el_lon el of Some v \<Rightarrow> Some v
                    | None \<Rightarrow> (case el_center el of None \<Rightarrow> None | Some c \<Rightarrow> snd c)) of
                Some v \<Rightarrow> toFixed 6 v | None \<Rightarrow> []),
       confidence = toFixed 2
          (if rootDomain hostname
             (Some (if tag (tags_of el) ''website'' \<noteq> [] then tag (tags_of el) ''website''
                    else tag (tags_of el) ''contact:website'')) \<noteq> [] then 1
           else if evidenceNote (tags_of el) kws \<noteq> [] then 7 / 10 else 1 / 2),
       notes' = evidenceNote (tags_of el) kws\<rparr>"
    unfolding extractRow_def Let_def by (simp only: if_False option.inject)
  show "name r = trim (tag (tags_of el) ''name'')" by (subst r) simp
  show "domain r =
           rootDomain hostname
             (Some (if tag (tags_of el) ''website'' \<noteq> [] then tag (tags_of el) ''website''
                    else tag (tags_of el) ''contact:website''))" by (subst r) simp
  show "notes' r = evidenceNote (tags_of el) kws" by (subst r) simp
  show "confidence r =
           toFixed 2 (if domain r \<noteq> [] then 1 else if notes' r \<noteq> [] then 7 / 10 else 1 / 2)"
    by (subst (1 2 3) r) (simp only: row.simps)
  show "source_url r =
           ''https://www.openstreetmap.org/'' @
           (if el_type el = Some ''node'' then ''node'' else ''way'') @ ''/'' @ str (el_id el)"
    by (subst r) (simp only: row.simps)
  show "city r = cityFromTags (tags_of el) fb" by (subst r) simp
  show "category r = categoryFromTags (tags_of el)" by (subst r) simp
qed

lemma lowerChar_bar: "lowerChar c = CHR ''|'' \<longleftrightarrow> c = CHR ''|''"
proof -
  have b: "(of_char (CHR ''|'') :: nat) = 124" by simp
  have "(of_char (lowerChar c) :: nat) = 124 \<longleftrightarrow> (of_char c :: nat) = 124"
    by (auto simp: lowerChar_def Let_def)
  then show ?thesis
    by (metis b of_char_eq_iff)
qed

lemma toLowerCase_bar: "CHR ''|'' \<in> set (toLowerCase s) \<longleftrightarrow> CHR ''|'' \<in> set s"
proof -
  have "CHR ''|'' \<in> lowerChar ` set s \<longleftrightarrow> CHR ''|'' \<in> set s"
    using lowerChar_bar by (metis (no_types, lifting) image_iff)
  then show ?thesis by (simp add: toLowerCase_def)
qed

lemma rootDomain_no_bar:
  assumes "\<forall>s h. hostname s = Some h \<longrightarrow> CHR ''|'' \<notin> set h"
  shows "CHR ''|'' \<notin> set (rootDomain hostname url)"
proof (cases url)
  case None
  then show ?thesis by (simp add: rootDomain_def)
next
  case (Some u)
  show ?thesis
  proof (cases "hostname (if prefix ''http'' u then u else ''http://'' @ u)")
    case None
    with Some show ?thesis by (simp add: rootDomain_def)
  next
    case h: (Some hn)
    then have "CHR ''|'' \<notin> set (toLowerCase hn)"
      using assms by (simp add: toLowerCase_bar)
    moreover have "set (drop 4 (toLowerCase hn)) \<subseteq> set (toLowerCase hn)"
      by (rule set_drop_subset)
    ultimately show ?thesis using Some h
      by (auto simp: rootDomain_def Let_def)
  qed
qed

lemma extractRows_domain_no_bar:
  assumes "\<forall>s h. hostname s = Some h \<longrightarrow> CHR ''|'' \<notin> set h"
    and "r \<in> set (extractRows hostname str kws fb els)"
  shows "CHR ''|'' \<notin> set (domain r)"
proof -
  from assms(2) obtain el where "extractRow hostname str kws fb el = Some r"
    by (auto simp: set_extractRows)
  then show ?thesis
    using extractRow_fields(2) rootDomain_no_bar [OF assms(1)] by simp
qed

text \<open>
  A host name holds no \<open>|\<close> (the URL parser rejects it in a host), so the domain of an
  extracted record never equals a name-and-city key, and among extracted records with the same
  non-empty domain the deduplicator keeps exactly the first.
\<close>

lemma dedupeRows_extracted_domain:
  assumes host: "\<forall>s h. hostname s = Some h \<longrightarrow> CHR ''|'' \<notin> set h" and d: "d \<noteq> []"
  shows "filter (\<lambda>r. domain r = d) (dedupeRows (extractRows hostname str kws fb els)) =
         take 1 (filter (\<lambda>r. domain r = d) (extractRows hostname str kws fb els))"
proof (cases "CHR ''|'' \<in> set d")
  case False
  with d show ?thesis by (rule dedupeRows_domain_first)
next
  case True
  let ?rows = "extractRows hostname str kws fb els"
  have none: "\<forall>r \<in> set ?rows. domain r \<noteq> d"
  proof
    fix r assume "r \<in> set ?rows"
    then have "CHR ''|'' \<notin> set (domain r)"
      by (rule extractRows_domain_no_bar [OF host])
    with True show "domain r \<noteq> d" by blast
  qed
  moreover have "set (dedupeRows ?rows) \<subseteq> set ?rows"
    using dedupe_loop_subseq [of "{}" ?rows] unfolding dedupeRows_def
    by (auto elim: list_emb_set)
  ultimately have "\<forall>r \<in> set (dedupeRows ?rows). domain r \<noteq> d" by blast
  with none show ?thesis by (simp add: filter_empty_conv)
qed

text \<open>
  Claim C3. An element whose \<^verbatim>\<open>name\<close> tag is missing, empty or only white space yields
  no output record (and every other element yields one), so every record of the
  extractor's output has a non-empty name with no white space around it.
\<close>

theorem extractRow_drops_unnamed:
  "(extractRow hostname str kws fb el = None \<longleftrightarrow> trim (tag (tags_of el) ''name'') = []) \<and>
   (el_tags el = None \<longrightarrow> extractRow hostname str kws fb el = None) \<and>
   (tags_of el ''name'' = None \<longrightarrow> extractRow hostname str kws fb el = None) \<and>
   (\<forall>v. tags_of el ''name'' = Some v \<and> (\<forall>c \<in> set v. isWhiteSpace c) \<longrightarrow>
        extractRow hostname str kws fb el = None) \<and>
   (\<forall>r \<in> set (extractRows hostname str kws fb els). name r \<noteq> [] \<and> trim (name r) = name r)"
proof (intro conjI impI allI ballI)
  show iff: "extractRow hostname str kws fb el = None \<longleftrightarrow> trim (tag (tags_of el) ''name'') = []"
    by (simp add: extractRow_def Let_def)
  show "extractRow hostname str kws fb el = None" if "el_tags el = None"
    using that by (simp add: iff tags_of_def tag_def trim_def)
  show "extractRow hostname str kws fb el = None" if "tags_of el ''name'' = None"
    using that by (simp add: iff tag_def trim_def)
  show "extractRow hostname str kws fb el = None"
    if "tags_of el ''name'' = Some v \<and> (\<forall>c \<in> set v. isWhiteSpace c)" for v
    using that trim_blank [of v] by (simp add: iff tag_def)
next
  fix r assume "r \<in> set (extractRows hostname str kws fb els)"
  then obtain el where el: "extractRow hostname str kws fb el = Some r"
    by (auto simp: set_extractRows)
  have "name r = trim (tag (tags_of el) ''name'')" and "name r \<noteq> []"
    using extractRow_fields(1) [OF el] extractRow_named [OF el] by simp_all
  then show "name r \<noteq> []" and "trim (name r) = name r" by (simp_all add: trim_idem)
qed

lemma floor_rat_numeral: "\<lfloor>numeral a / numeral b :: rat\<rfloor> = numeral a div numeral b"
  by (metis floor_divide_of_int_eq of_int_numeral)

lemma show_nat_samples:
  "show_nat 50 = ''50''" "show_nat 70 = ''70''" "show_nat 100 = ''100''"
  "show_nat 101 = ''101''" "show_nat 2024 = ''2024''"
  "show_nat 29500000 = ''29500000''" "show_nat 98500000 = ''98500000''"
  "show_nat 29424100 = ''29424100''" "show_nat 98493700 = ''98493700''"
  by (simp_all add: show_nat.simps char_of_def bit_Suc_0_iff)

lemma toFixed_confidence:
  "toFixed 2 1 = ''1.00''" "toFixed 2 (7 / 10) = ''0.70''" "toFixed 2 (1 / 2) = ''0.50''"
  by (simp_all add: toFixed_def show_nat_samples floor_rat_numeral)

lemma toFixed_samples:
  "toFixed 6 (59 / 2) = ''29.500000''" "toFixed 6 (- (197 / 2)) = ''-98.500000''"
  "toFixed 6 (294241 / 10000) = ''29.424100''" "toFixed 6 (- (984937 / 10000)) = ''-98.493700''"
  by (simp_all add: toFixed_def show_nat_samples floor_rat_numeral)

lemma sample_ids:
  "sample_to_string (JNum (Fin 101)) = ''101''" "sample_to_string (JNum (Fin 102)) = ''102''"
  "sample_to_string (JNum (Fin 2024)) = ''2024''" "sample_to_string Undefined = ''undefined''"
  by (simp_all add: sample_to_string_def)

lemma luxe_tags:
  "tag (tags_of luxe) ''name'' = ''Luxe Aesthetics''"
  "tag (tags_of luxe) ''website'' = []" "tag (tags_of luxe) ''contact:website'' = []"
  "tags_of luxe ''leisure'' = None" "tags_of luxe ''amenity'' = None"
  "tags_of luxe ''shop'' = Some ''beauty''"
  "tag (tags_of luxe) ''addr:city'' = []" "tag (tags_of luxe) ''is_in:city'' = []"
  "tag (tags_of luxe) ''addr:town'' = []" "tag (tags_of luxe) ''addr:village'' = []"
  by (simp_all add: luxe_def tags_of_def tag_def)

lemma luxe_note: "evidenceNote (tags_of luxe) [''aesthetic''] = ''name_keywords=aesthetic''"
  by (simp add: evidenceNote_def luxe_tags toLowerCase_def lowerChar_def char_of_def
      bit_Suc_0_iff sublist_code prefix_code)

lemma extractRow_luxe:
  "extractRow sample_hostname sample_to_string [''aesthetic''] ''San Antonio'' luxe =
     Some \<lparr>name = ''Luxe Aesthetics'', domain = [], city = ''San Antonio'', category = ''beauty'',
       source_url = ''https://www.openstreetmap.org/way/2024'', lat = ''29.500000'',
       lon = ''-98.500000'', confidence = ''0.70'', notes' = ''name_keywords=aesthetic''\<rparr>"
  by (simp add: extractRow_def luxe_tags luxe_note trim_def isWhiteSpace_def rootDomain_def
      categoryFromTags_def cityFromTags_def toFixed_confidence toFixed_samples show_nat_samples)
    (simp add: luxe_def toFixed_samples sample_ids)

lemma unnamed_name: "tags_of unnamed ''name'' = Some ''   ''"
  by (simp add: unnamed_def tags_of_def)

lemma extractRow_unnamed:
  "extractRow sample_hostname sample_to_string [''aesthetic''] ''San Antonio'' unnamed = None"
  by (simp add: extractRow_def tag_def unnamed_name trim_def isWhiteSpace_def)

lemma extractRows_sample:
  "extractRows sample_hostname sample_to_string [''aesthetic''] ''San Antonio'' [unnamed, luxe] =
     [\<lparr>name = ''Luxe Aesthetics'', domain = [], city = ''San Antonio'', category = ''beauty'',
       source_url = ''https://www.openstreetmap.org/way/2024'', lat = ''29.500000'',
       lon = ''-98.500000'', confidence = ''0.70'', notes' = ''name_keywords=aesthetic''\<rparr>]"
  by (simp add: extractRows_def extractRow_luxe extractRow_unnamed)

theorem extractRow_drops_unnamed_witness:
  "tags_of unnamed ''name'' = Some ''   '' \<and> list_all isWhiteSpace ''   '' \<and>
   extractRow sample_hostname sample_to_string [''aesthetic''] ''San Antonio'' unnamed = None \<and>
   map name (extractRows sample_hostname sample_to_string [''aesthetic''] ''San Antonio'' [unnamed, luxe]) =
     [''Luxe Aesthetics''] \<and>
   trim ''Luxe Aesthetics'' = ''Luxe Aesthetics''"
  using extractRow_drops_unnamed
    [of sample_hostname sample_to_string "[''aesthetic'']" "''San Antonio''" unnamed
      "[unnamed, luxe]"]
    unnamed_name extractRows_sample
  by (simp add: isWhiteSpace_def)

lemma evidenceNote_nonempty_iff:
  "evidenceNote tags kws \<noteq> [] \<longleftrightarrow>
     (\<exists>k \<in> set kws. k \<noteq> [] \<and> sublist (toLowerCase k) (toLowerCase (tag tags ''name'')))"
proof -
  let ?n = "toLowerCase (tag tags ''name'')"
  let ?hits = "filter (\<lambda>k. sublist k ?n) (map toLowerCase (filter (\<lambda>k. k \<noteq> []) kws))"
  have "evidenceNote tags kws \<noteq> [] \<longleftrightarrow> ?hits \<noteq> []"
    by (simp add: evidenceNote_def Let_def)
  also have "\<dots> \<longleftrightarrow> (\<exists>k \<in> set kws. k \<noteq> [] \<and> sublist (toLowerCase k) ?n)"
    by (auto simp: filter_empty_conv)
  finally show ?thesis .
qed

text \<open>
  Claim C7. The confidence of an extracted record is \<^verbatim>\<open>1.00\<close> exactly when its domain is
  non-empty, otherwise \<^verbatim>\<open>0.70\<close> exactly when its notes are non-empty, otherwise
  \<^verbatim>\<open>0.50\<close>; and the notes are non-empty exactly when some non-empty configured keyword,
  lower-cased, is a substring of the lower-cased \<^verbatim>\<open>name\<close> tag of the element.
\<close>

theorem extractRow_confidence:
  assumes "extractRow hostname str kws fb el = Some r"
  shows "confidence r =
           (if domain r \<noteq> [] then ''1.00'' else if notes' r \<noteq> [] then ''0.70'' else ''0.50'') \<and>
         (confidence r = ''1.00'' \<longleftrightarrow> domain r \<noteq> []) \<and>
         (confidence r = ''0.70'' \<longleftrightarrow> domain r = [] \<and> notes' r \<noteq> []) \<and>
         (confidence r = ''0.50'' \<longleftrightarrow> domain r = [] \<and> notes' r = []) \<and>
         (notes' r \<noteq> [] \<longleftrightarrow>
            (\<exists>k \<in> set kws. k \<noteq> [] \<and>
               sublist (toLowerCase k) (toLowerCase (tag (tags_of el) ''name''))))"
proof -
  have c: "confidence r =
           (if domain r \<noteq> [] then ''1.00'' else if notes' r \<noteq> [] then ''0.70'' else ''0.50'')"
    using extractRow_fields(4) [OF assms] by (simp add: toFixed_confidence)
  have n: "notes' r \<noteq> [] \<longleftrightarrow>
            (\<exists>k \<in> set kws. k \<noteq> [] \<and>
               sublist (toLowerCase k) (toLowerCase (tag (tags_of el) ''name'')))"
    using extractRow_fields(3) [OF assms] by (simp add: evidenceNote_nonempty_iff)
  from c have "confidence r = ''1.00'' \<longleftrightarrow> domain r \<noteq> []"
    and "confidence r = ''0.70'' \<longleftrightarrow> domain r = [] \<and> notes' r \<noteq> []"
    and "confidence r = ''0.50'' \<longleftrightarrow> domain r = [] \<and> notes' r = []"
    by simp_all
  with c n show ?thesis by blast
qed

theorem extractRow_confidence_witness:
  "extractRow sample_hostname sample_to_string [''aesthetic''] ''San Antonio'' luxe =
     Some \<lparr>name = ''Luxe Aesthetics'', domain = [], city = ''San Antonio'', category = ''beauty'',
       source_url = ''https://www.openstreetmap.org/way/2024'', lat = ''29.500000'',
       lon = ''-98.500000'', confidence = ''0.70'', notes' = ''name_keywords=aesthetic''\<rparr> \<and>
   (\<exists>k \<in> set [''aesthetic'']. k \<noteq> [] \<and>
      sublist (toLowerCase k) (toLowerCase (tag (tags_of luxe) ''name'')))"
  using extractRow_confidence [OF extractRow_luxe] extractRow_luxe by simp

text \<open>
  Claim C10. The source URL of an extracted record names the kind \<^verbatim>\<open>node\<close> only when the
  element's \<^verbatim>\<open>type\<close> is the string \<^verbatim>\<open>node\<close>; for every other type, a missing one
  included, it is the \<^verbatim>\<open>way\<close> URL, ending in the text that the conversion \<open>str\<close> of the
  language gives for the element's id.
\<close>

theorem extractRow_source_url:
  assumes "extractRow hostname str kws fb el = Some r"
  shows "source_url r =
           ''https://www.openstreetmap.org/'' @
           (if el_type el = Some ''node'' then ''node'' else ''way'') @ ''/'' @ str (el_id el) \<and>
         (el_type el \<noteq> Some ''node'' \<longrightarrow>
            source_url r = ''https://www.openstreetmap.org/way/'' @ str (el_id el)) \<and>
         (prefix ''https://www.openstreetmap.org/node/'' (source_url r) \<longleftrightarrow>
            el_type el = Some ''node'')"
proof -
  have u: "source_url r =
           ''https://www.openstreetmap.org/'' @
           (if el_type el = Some ''node'' then ''node'' else ''way'') @ ''/'' @ str (el_id el)"
    by (rule extractRow_fields(5) [OF assms])
  then show ?thesis by simp
qed

theorem extractRow_source_url_witness:
  "extractRow sample_hostname sample_to_string [''aesthetic''] ''San Antonio'' luxe \<noteq> None \<and>
   el_type luxe = Some ''relation'' \<and> el_type luxe \<noteq> Some ''node'' \<and>
   source_url (the (extractRow sample_hostname sample_to_string [''aesthetic''] ''San Antonio'' luxe)) =
     ''https://www.openstreetmap.org/way/2024''"
  using extractRow_source_url [OF extractRow_luxe] extractRow_luxe
  by (simp add: luxe_def sample_ids)

subsection \<open>\<^verbatim>\<open>rootDomain\<close>\<close>

lemma rootDomain_absent: "rootDomain hostname None = [] \<and> rootDomain hostname (Some []) = []"
  by (simp add: rootDomain_def)

lemma rootDomain_throws:
  "hostname (if prefix ''http'' u then u else ''http://'' @ u) = None \<Longrightarrow>
   rootDomain hostname (Some u) = []"
  by (simp add: rootDomain_def)

lemma rootDomain_parsed:
  "u \<noteq> [] \<Longrightarrow> hostname (if prefix ''http'' u then u else ''http://'' @ u) = Some hn \<Longrightarrow>
   rootDomain hostname (Some u) =
     (if prefix ''www.'' (toLowerCase hn) then drop 4 (toLowerCase hn) else toLowerCase hn)"
  by (simp add: rootDomain_def Let_def)

lemma rootDomain_examples:
  "rootDomain sample_hostname (Some ''https://www.example.com/page'') = ''example.com''"
  "rootDomain sample_hostname (Some ''not a url'') = []"
  "rootDomain sample_hostname (Some ''http://glow.com'') = ''glow.com''"
  by (simp_all add: rootDomain_def sample_hostname_def prefix_code toLowerCase_def lowerChar_def
      char_of_def bit_Suc_0_iff)

text \<open>
  Claim C8, at the input \<^verbatim>\<open>httpbin.org\<close>. The string has no scheme, but it starts with
  \<^verbatim>\<open>http\<close>, so \<^verbatim>\<open>rootDomain\<close> hands it to the URL parser as it is, without
  \<^verbatim>\<open>http://\<close> in front. The parser rejects a string with no scheme, and the result is the
  empty string, although \<^verbatim>\<open>http://httpbin.org\<close> parses with host \<^verbatim>\<open>httpbin.org\<close>.
\<close>

theorem rootDomain_http_host:
  "rootDomain hostname (Some ''httpbin.org'') =
     (case hostname ''httpbin.org'' of
        None \<Rightarrow> []
      | Some hn \<Rightarrow> if prefix ''www.'' (toLowerCase hn) then drop 4 (toLowerCase hn)
                   else toLowerCase hn) \<and>
   rootDomain sample_hostname (Some ''httpbin.org'') = [] \<and>
   sample_hostname (''http://'' @ ''httpbin.org'') = Some ''httpbin.org''"
  by (simp add: rootDomain_def sample_hostname_def prefix_code Let_def split: option.splits)

subsection \<open>The endpoint client\<close>

lemma attempts_three:
  "attempts net ep ql (Suc 0) lastErr =
     (case attempt net ep ql 1 of
        Inr j \<Rightarrow> (Return j, [Fetch ep ql])
      | Inl e1 \<Rightarrow>
          (case attempt net ep ql 2 of
             Inr j \<Rightarrow> (Return j, [Fetch ep ql, Sleep 700, Fetch ep ql])
           | Inl e2 \<Rightarrow>
               (case attempt net ep ql 3 of
                  Inr j \<Rightarrow> (Return j, [Fetch ep ql, Sleep 700, Fetch ep ql, Sleep 1400, Fetch ep ql])
                | Inl e3 \<Rightarrow>
                    (Fallthrough (Some e3),
                     [Fetch ep ql, Sleep 700, Fetch ep ql, Sleep 1400, Fetch ep ql, Sleep 2100]))))"
  by (simp add: attempts.simps numeral_2_eq_2 numeral_3_eq_3 split: sum.splits)

text \<open>
  The error a run of failed attempts leaves in \<^verbatim>\<open>lastErr\<close>, and the error that is thrown
  when nothing succeeded.
\<close>

lemma endpoints_loop_schedule:
  "endpoints_loop net ql eps lastErr =
     (let failed = takeWhile (failed_attempt net ql) (schedule eps);
          tr = concat (map (fetch_and_wait ql) failed)
      in case dropWhile (failed_attempt net ql) (schedule eps) of
           [] \<Rightarrow>
             (if failed = []
              then Inl (case lastErr of Some e \<Rightarrow> e | None \<Rightarrow> newError ''All Overpass endpoints failed'')
              else attempt net (fst (last failed)) ql (snd (last failed)), tr)
         | (ep, a) # _ \<Rightarrow> (attempt net ep ql a, tr @ [Fetch ep ql]))"
proof (induction eps arbitrary: lastErr)
  case Nil
  show ?case by (simp add: schedule_def)
next
  case (Cons ep eps)
  have sch: "schedule (ep # eps) = (ep, 1) # (ep, 2) # (ep, 3) # schedule eps"
    by (simp add: schedule_def)
  show ?case
  proof (cases "attempt net ep ql 1")
    case (Inr j)
    then show ?thesis by (simp add: sch attempts_three failed_attempt_def)
  next
    case e1: (Inl e1)
    show ?thesis
    proof (cases "attempt net ep ql 2")
      case (Inr j)
      with e1 show ?thesis
        by (simp add: sch attempts_three failed_attempt_def fetch_and_wait_def)
    next
      case e2: (Inl e2)
      show ?thesis
      proof (cases "attempt net ep ql 3")
        case (Inr j)
        with e1 e2 show ?thesis
          by (simp add: sch attempts_three failed_attempt_def fetch_and_wait_def)
      next
        case e3: (Inl e3)
        define T where "T = takeWhile (failed_attempt net ql) (schedule eps)"
        define D where "D = dropWhile (failed_attempt net ql) (schedule eps)"
        have f: "failed_attempt net ql (ep, 1)" "failed_attempt net ql (ep, 2)"
          "failed_attempt net ql (ep, 3)"
          using e1 e2 e3 by (simp_all add: failed_attempt_def)
        have tw: "takeWhile (failed_attempt net ql) (schedule (ep # eps)) =
            (ep, 1) # (ep, 2) # (ep, 3) # T"
          using f by (simp add: sch T_def)
        have dw: "dropWhile (failed_attempt net ql) (schedule (ep # eps)) = D"
          using f by (simp add: sch D_def)
        note ih = Cons.IH [of "Some e3", unfolded Let_def, folded T_def D_def]
        have lhs: "endpoints_loop net ql (ep # eps) lastErr =
            (case endpoints_loop net ql eps (Some e3) of
               (r, tr') \<Rightarrow>
                 (r, [Fetch ep ql, Sleep 700, Fetch ep ql, Sleep 1400, Fetch ep ql, Sleep 2100] @ tr'))"
          using e1 e2 e3 by (simp add: attempts_three)
        show ?thesis
          unfolding Let_def tw dw lhs ih using e3
          by (cases D; cases "T = []") (auto simp: fetch_and_wait_def)
      qed
    qed
  qed
qed

lemma attempt_Inr_iff:
  "attempt net ep ql a = Inr j \<longleftrightarrow>
     (\<exists>res. net ep ql a = Resolves res \<and> 200 \<le> status res \<and> status res \<le> 299 \<and>
        sublist ''application/json'' (case content_type res of None \<Rightarrow> [] | Some c \<Rightarrow> c) \<and>
        body res = Inr j)"
  by (cases "net ep ql a") (auto simp: attempt_def res_ok_def Let_def)

lemma schedule_endpoints:
  "schedule OVERPASS_ENDPOINTS =
     [(''https://overpass-api.de/api/interpreter'', 1),
      (''https://overpass-api.de/api/interpreter'', 2),
      (''https://overpass-api.de/api/interpreter'', 3),
      (''https://overpass.kumi.systems/api/interpreter'', 1),
      (''https://overpass.kumi.systems/api/interpreter'', 2),
      (''https://overpass.kumi.systems/api/interpreter'', 3),
      (''https://overpass.openstreetmap.ru/api/interpreter'', 1),
      (''https://overpass.openstreetmap.ru/api/interpreter'', 2),
      (''https://overpass.openstreetmap.ru/api/interpreter'', 3)]"
  by (simp add: schedule_def OVERPASS_ENDPOINTS_def)

text \<open>
  Claim C5. The endpoint client walks the endpoints in list order with attempts 1, 2, 3 on
  each, and waits 700 ms times the attempt number after every failed attempt. An attempt
  succeeds only if the call resolves, the status is in 200..299, the content type holds
  \<^verbatim>\<open>application/json\<close> and the body parses. The client returns the parsed body of the
  first attempt that succeeds, having made exactly the attempts before it; when all nine
  attempts fail it throws the error of the last one.
\<close>

theorem queryOverpass_first_success:
  "(schedule OVERPASS_ENDPOINTS = pre @ (ep, a) # post \<and>
    (\<forall>p \<in> set pre. failed_attempt net ql p) \<and> attempt net ep ql a = Inr j \<longrightarrow>
      queryOverpass net ql = (Inr j, concat (map (fetch_and_wait ql) pre) @ [Fetch ep ql])) \<and>
   ((\<forall>p \<in> set (schedule OVERPASS_ENDPOINTS). failed_attempt net ql p) \<longrightarrow>
      (\<exists>e. attempt net (last OVERPASS_ENDPOINTS) ql 3 = Inl e \<and>
           queryOverpass net ql =
             (Inl e, concat (map (fetch_and_wait ql) (schedule OVERPASS_ENDPOINTS))))) \<and>
   schedule OVERPASS_ENDPOINTS =
     concat (map (\<lambda>ep. [(ep, 1), (ep, 2), (ep, 3)]) OVERPASS_ENDPOINTS) \<and>
   fetch_and_wait ql (ep', a') = [Fetch ep' ql, Sleep (700 * a')] \<and>
   (failed_attempt net ql (ep', a') \<longleftrightarrow> (\<exists>e. attempt net ep' ql a' = Inl e)) \<and>
   (attempt net ep' ql a' = Inr j' \<longleftrightarrow>
     (\<exists>res. net ep' ql a' = Resolves res \<and> 200 \<le> status res \<and> status res \<le> 299 \<and>
        sublist ''application/json'' (case content_type res of None \<Rightarrow> [] | Some c \<Rightarrow> c) \<and>
        body res = Inr j'))"
proof (intro conjI impI)
  let ?F = "failed_attempt net ql"
  let ?S = "schedule OVERPASS_ENDPOINTS"
  note loop = endpoints_loop_schedule [of net ql OVERPASS_ENDPOINTS None, folded queryOverpass_def,
      unfolded Let_def]
  show "queryOverpass net ql = (Inr j, concat (map (fetch_and_wait ql) pre) @ [Fetch ep ql])"
    if h: "?S = pre @ (ep, a) # post \<and> (\<forall>p \<in> set pre. ?F p) \<and> attempt net ep ql a = Inr j"
  proof -
    from h have nf: "\<not> ?F (ep, a)" by (simp add: failed_attempt_def)
    from h nf have tw: "takeWhile ?F ?S = pre"
      by (simp add: takeWhile_append2)
    from h nf have dw: "dropWhile ?F ?S = (ep, a) # post"
      by (simp add: dropWhile_append2)
    show ?thesis unfolding loop tw dw using h by simp
  qed
  show "\<exists>e. attempt net (last OVERPASS_ENDPOINTS) ql 3 = Inl e \<and>
           queryOverpass net ql = (Inl e, concat (map (fetch_and_wait ql) ?S))"
    if h: "\<forall>p \<in> set ?S. ?F p"
  proof -
    from h have tw: "takeWhile ?F ?S = ?S" by (simp add: takeWhile_eq_all_conv)
    from h have dw: "dropWhile ?F ?S = []" by simp
    have l: "last ?S = (last OVERPASS_ENDPOINTS, 3)" and ne: "?S \<noteq> []"
      by (simp_all add: schedule_endpoints) (simp add: OVERPASS_ENDPOINTS_def)
    from h ne have "?F (last ?S)" using last_in_set by blast
    then obtain e where e: "attempt net (last OVERPASS_ENDPOINTS) ql 3 = Inl e"
      unfolding l by (cases "attempt net (last OVERPASS_ENDPOINTS) ql 3") (simp_all add: failed_attempt_def)
    have "queryOverpass net ql = (Inl e, concat (map (fetch_and_wait ql) ?S))"
      unfolding loop tw dw using ne e by (simp add: l)
    with e show ?thesis by blast
  qed
  show "?S = concat (map (\<lambda>ep. [(ep, 1), (ep, 2), (ep, 3)]) OVERPASS_ENDPOINTS)"
    by (simp add: schedule_def)
  show "fetch_and_wait ql (ep', a') = [Fetch ep' ql, Sleep (700 * a')]"
    by (simp add: fetch_and_wait_def)
  show "failed_attempt net ql (ep', a') \<longleftrightarrow> (\<exists>e. attempt net ep' ql a' = Inl e)"
    by (cases "attempt net ep' ql a'") (simp_all add: failed_attempt_def)
  show "attempt net ep' ql a' = Inr j' \<longleftrightarrow>
     (\<exists>res. net ep' ql a' = Resolves res \<and> 200 \<le> status res \<and> status res \<le> 299 \<and>
        sublist ''application/json'' (case content_type res of None \<Rightarrow> [] | Some c \<Rightarrow> c) \<and>
        body res = Inr j')"
    by (rule attempt_Inr_iff)
qed

lemma net_flaky_attempts:
  "attempt net_flaky ''https://overpass-api.de/api/interpreter'' ql a = Inl (newError ''HTTP 504'')"
  "attempt net_flaky ''https://overpass.kumi.systems/api/interpreter'' ql (Suc 0) =
     Inl (newError ''Unexpected content-type: text/html; charset=utf-8'')"
  "attempt net_flaky ''https://overpass.kumi.systems/api/interpreter'' ql 2 =
     Inr (Some [glow_spa, glow_annex])"
proof -
  have "show_nat 504 = ''504''"
    by (simp add: show_nat.simps char_of_def bit_Suc_0_iff)
  then show "attempt net_flaky ''https://overpass-api.de/api/interpreter'' ql a =
      Inl (newError ''HTTP 504'')"
    by (simp add: attempt_def net_flaky_def res_ok_def)
  show "attempt net_flaky ''https://overpass.kumi.systems/api/interpreter'' ql (Suc 0) =
     Inl (newError ''Unexpected content-type: text/html; charset=utf-8'')"
    by (simp add: attempt_def net_flaky_def res_ok_def sublist_code prefix_code)
  show "attempt net_flaky ''https://overpass.kumi.systems/api/interpreter'' ql 2 =
     Inr (Some [glow_spa, glow_annex])"
    by (simp add: attempt_def net_flaky_def res_ok_def sublist_code prefix_code)
qed

lemma net_down_attempts:
  "attempt net_down ep ql a = Inl (Error ''fetch failed'' ''TypeError: fetch failed'')"
  by (simp add: attempt_def net_down_def)

theorem queryOverpass_first_success_witness:
  "schedule OVERPASS_ENDPOINTS =
     [(''https://overpass-api.de/api/interpreter'', 1),
      (''https://overpass-api.de/api/interpreter'', 2),
      (''https://overpass-api.de/api/interpreter'', 3),
      (''https://overpass.kumi.systems/api/interpreter'', 1)] @
     (''https://overpass.kumi.systems/api/interpreter'', 2) #
     [(''https://overpass.kumi.systems/api/interpreter'', 3),
      (''https://overpass.openstreetmap.ru/api/interpreter'', 1),
      (''https://overpass.openstreetmap.ru/api/interpreter'', 2),
      (''https://overpass.openstreetmap.ru/api/interpreter'', 3)] \<and>
   list_all (failed_attempt net_flaky ''q'')
     [(''https://overpass-api.de/api/interpreter'', 1),
      (''https://overpass-api.de/api/interpreter'', 2),
      (''https://overpass-api.de/api/interpreter'', 3),
      (''https://overpass.kumi.systems/api/interpreter'', 1)] \<and>
   attempt net_flaky ''https://overpass.kumi.systems/api/interpreter'' ''q'' 2 =
     Inr (Some [glow_spa, glow_annex]) \<and>
   queryOverpass net_flaky ''q'' =
     (Inr (Some [glow_spa, glow_annex]),
      [Fetch ''https://overpass-api.de/api/interpreter'' ''q'', Sleep 700,
       Fetch ''https://overpass-api.de/api/interpreter'' ''q'', Sleep 1400,
       Fetch ''https://overpass-api.de/api/interpreter'' ''q'', Sleep 2100,
       Fetch ''https://overpass.kumi.systems/api/interpreter'' ''q'', Sleep 700,
       Fetch ''https://overpass.kumi.systems/api/interpreter'' ''q'']) \<and>
   list_all (failed_attempt net_down ''q'') (schedule OVERPASS_ENDPOINTS) \<and>
   queryOverpass net_down ''q'' =
     (Inl (Error ''fetch failed'' ''TypeError: fetch failed''),
      [Fetch ''https://overpass-api.de/api/interpreter'' ''q'', Sleep 700,
       Fetch ''https://overpass-api.de/api/interpreter'' ''q'', Sleep 1400,
       Fetch ''https://overpass-api.de/api/interpreter'' ''q'', Sleep 2100,
       Fetch ''https://overpass.kumi.systems/api/interpreter'' ''q'', Sleep 700,
       Fetch ''https://overpass.kumi.systems/api/interpreter'' ''q'', Sleep 1400,
       Fetch ''https://overpass.kumi.systems/api/interpreter'' ''q'', Sleep 2100,
       Fetch ''https://overpass.openstreetmap.ru/api/interpreter'' ''q'', Sleep 700,
       Fetch ''https://overpass.openstreetmap.ru/api/interpreter'' ''q'', Sleep 1400,
       Fetch ''https://overpass.openstreetmap.ru/api/interpreter'' ''q'', Sleep 2100])"
proof -
  note ok = queryOverpass_first_success
    [where net = net_flaky and ql = "''q''"
       and pre = "[(''https://overpass-api.de/api/interpreter'', 1),
                   (''https://overpass-api.de/api/interpreter'', 2),
                   (''https://overpass-api.de/api/interpreter'', 3),
                   (''https://overpass.kumi.systems/api/interpreter'', 1)]"
       and ep = "''https://overpass.kumi.systems/api/interpreter''" and a = 2
       and post = "[(''https://overpass.kumi.systems/api/interpreter'', 3),
                    (''https://overpass.openstreetmap.ru/api/interpreter'', 1),
                    (''https://overpass.openstreetmap.ru/api/interpreter'', 2),
                    (''https://overpass.openstreetmap.ru/api/interpreter'', 3)]"
       and j = "Some [glow_spa, glow_annex]", THEN conjunct1]
  note down = queryOverpass_first_success
    [where net = net_down and ql = "''q''", THEN conjunct2, THEN conjunct1]
  have "queryOverpass net_flaky ''q'' =
     (Inr (Some [glow_spa, glow_annex]),
      [Fetch ''https://overpass-api.de/api/interpreter'' ''q'', Sleep 700,
       Fetch ''https://overpass-api.de/api/interpreter'' ''q'', Sleep 1400,
       Fetch ''https://overpass-api.de/api/interpreter'' ''q'', Sleep 2100,
       Fetch ''https://overpass.kumi.systems/api/interpreter'' ''q'', Sleep 700,
       Fetch ''https://overpass.kumi.systems/api/interpreter'' ''q''])"
    using ok
    by (simp add: schedule_endpoints failed_attempt_def fetch_and_wait_def net_flaky_attempts)
  moreover have "queryOverpass net_down ''q'' =
     (Inl (Error ''fetch failed'' ''TypeError: fetch failed''),
      [Fetch ''https://overpass-api.de/api/interpreter'' ''q'', Sleep 700,
       Fetch ''https://overpass-api.de/api/interpreter'' ''q'', Sleep 1400,
       Fetch ''https://overpass-api.de/api/interpreter'' ''q'', Sleep 2100,
       Fetch ''https://overpass.kumi.systems/api/interpreter'' ''q'', Sleep 700,
       Fetch ''https://overpass.kumi.systems/api/interpreter'' ''q'', Sleep 1400,
       Fetch ''https://overpass.kumi.systems/api/interpreter'' ''q'', Sleep 2100,
       Fetch ''https://overpass.openstreetmap.ru/api/interpreter'' ''q'', Sleep 700,
       Fetch ''https://overpass.openstreetmap.ru/api/interpreter'' ''q'', Sleep 1400,
       Fetch ''https://overpass.openstreetmap.ru/api/interpreter'' ''q'', Sleep 2100])"
    using down
    by (simp add: schedule_endpoints failed_attempt_def fetch_and_wait_def net_down_attempts)
  ultimately show ?thesis
    by (simp add: schedule_endpoints failed_attempt_def net_flaky_attempts net_down_attempts)
qed

subsection \<open>The run driver\<close>

lemma queryOverpass_effects:
  assumes "e \<in> set (snd (queryOverpass net ql))"
  shows "(\<exists>ep. e = Fetch ep ql) \<or> (\<exists>n. e = Sleep n)"
proof -
  define T where "T = takeWhile (failed_attempt net ql) (schedule OVERPASS_ENDPOINTS)"
  define D where "D = dropWhile (failed_attempt net ql) (schedule OVERPASS_ENDPOINTS)"
  note loop = endpoints_loop_schedule [of net ql OVERPASS_ENDPOINTS None, folded queryOverpass_def,
      unfolded Let_def, folded T_def D_def]
  have "snd (queryOverpass net ql) = concat (map (fetch_and_wait ql) T) \<or>
      (\<exists>ep. snd (queryOverpass net ql) = concat (map (fetch_and_wait ql) T) @ [Fetch ep ql])"
    unfolding loop by (cases D) (auto split: prod.splits)
  with assms show ?thesis by (auto simp: fetch_and_wait_def)
qed

text \<open>
  Claim C6. The run always completes normally. When the configuration is invalid, the only
  effect is the error record (message and stack) in the \<^verbatim>\<open>ERROR\<close> slot; when the endpoints
  are exhausted, the effects are the delivery attempts followed by the error record, and no
  dataset write. On success the effects end with the write of the deduplicated rows followed
  by the run summary, whose \<^verbatim>\<open>found\<close> is the number of rows before deduplication and
  whose \<^verbatim>\<open>deduped\<close> is the number after it.
\<close>

theorem main_reports_errors:
  "fst (main pf got) = Inr () \<and>
   (normalizeInput (string_to_number pf) (input_of got) = Inl err \<longrightarrow>
      main pf got = (Inr (), [SetValue_ERROR (message err) (stack err)])) \<and>
   (normalizeInput (string_to_number pf) (input_of got) = Inr cfg \<and>
    queryOverpass (fetch pf) (query_of pf cfg) = (Inl err, tr) \<longrightarrow>
      main pf got = (Inr (), tr @ [SetValue_ERROR (message err) (stack err)]) \<and>
      (\<forall>rows. PushData rows \<notin> set (snd (main pf got)))) \<and>
   (normalizeInput (string_to_number pf) (input_of got) = Inr cfg \<and>
    queryOverpass (fetch pf) (query_of pf cfg) = (Inr j, tr) \<longrightarrow>
      main pf got =
        (Inr (),
         tr @ [PushData (dedupeRows (extractRows (url_hostname pf) (value_to_string pf) (cfg_keywords cfg)
                                      (cfg_city cfg) (elements_of j))),
               SetValue_RUN_SUMMARY
                 \<lparr>found = length (extractRows (url_hostname pf) (value_to_string pf) (cfg_keywords cfg)
                                     (cfg_city cfg) (elements_of j)),
                  deduped = length (dedupeRows (extractRows (url_hostname pf) (value_to_string pf) (cfg_keywords cfg)
                                                 (cfg_city cfg) (elements_of j))),
                  sum_bbox = cfg_bbox cfg, sum_keywords = cfg_keywords cfg,
                  sum_city = cfg_city cfg,
                  hint = ''Open the Dataset tab to export CSV.''\<rparr>]))"
proof (intro conjI impI)
  show "fst (main pf got) = Inr ()"
    by (simp add: main_def split: prod.splits sum.splits)
  show "main pf got = (Inr (), [SetValue_ERROR (message err) (stack err)])"
    if "normalizeInput (string_to_number pf) (input_of got) = Inl err"
    using that by (simp add: main_def main_try_def)
next
  assume h: "normalizeInput (string_to_number pf) (input_of got) = Inr cfg \<and>
    queryOverpass (fetch pf) (query_of pf cfg) = (Inl err, tr)"
  then show m: "main pf got = (Inr (), tr @ [SetValue_ERROR (message err) (stack err)])"
    by (simp add: main_def main_try_def)
  have "PushData rows \<notin> set tr" for rows
    using queryOverpass_effects [of "PushData rows" "fetch pf" "query_of pf cfg"] h by auto
  then show "\<forall>rows. PushData rows \<notin> set (snd (main pf got))"
    unfolding m by simp
next
  assume h: "normalizeInput (string_to_number pf) (input_of got) = Inr cfg \<and>
    queryOverpass (fetch pf) (query_of pf cfg) = (Inr j, tr)"
  then show "main pf got =
        (Inr (),
         tr @ [PushData (dedupeRows (extractRows (url_hostname pf) (value_to_string pf) (cfg_keywords cfg)
                                      (cfg_city cfg) (elements_of j))),
               SetValue_RUN_SUMMARY
                 \<lparr>found = length (extractRows (url_hostname pf) (value_to_string pf) (cfg_keywords cfg)
                                     (cfg_city cfg) (elements_of j)),
                  deduped = length (dedupeRows (extractRows (url_hostname pf) (value_to_string pf) (cfg_keywords cfg)
                                                 (cfg_city cfg) (elements_of j))),
                  sum_bbox = cfg_bbox cfg, sum_keywords = cfg_keywords cfg,
                  sum_city = cfg_city cfg,
                  hint = ''Open the Dataset tab to export CSV.''\<rparr>])"
    by (simp add: main_def main_try_def Let_def)
qed

lemma normalizeInput_empty: "normalizeInput (\<lambda>s. NaN) empty_input = Inr default_config"
  by (simp add: normalizeInput_def empty_input_def toNum_def toNumber_def in_range_def
      default_config_def)

lemma normalizeInput_north_91:
  "normalizeInput (\<lambda>s. NaN) (empty_input\<lparr>bbox_north := JNum (Fin 91)\<rparr>) =
     Inl (newError ''Invalid bbox coordinates'')"
  by (simp add: normalizeInput_def empty_input_def toNum_def toNumber_def in_range_def)

lemma queryOverpass_net_down:
  "queryOverpass net_down ql =
     (Inl (Error ''fetch failed'' ''TypeError: fetch failed''),
      concat (map (fetch_and_wait ql) (schedule OVERPASS_ENDPOINTS)))"
  by (simp add: queryOverpass_def OVERPASS_ENDPOINTS_def attempts_three net_down_attempts
      schedule_def fetch_and_wait_def)

lemma queryOverpass_net_flaky:
  "queryOverpass net_flaky ql =
     (Inr (Some [glow_spa, glow_annex]),
      concat (map (fetch_and_wait ql) (take 4 (schedule OVERPASS_ENDPOINTS))) @
      [Fetch ''https://overpass.kumi.systems/api/interpreter'' ql])"
  by (simp add: queryOverpass_def OVERPASS_ENDPOINTS_def attempts_three net_flaky_attempts
      schedule_def fetch_and_wait_def)

lemma glow_tags:
  "tag (tags_of glow_spa) ''name'' = ''Glow Med Spa''"
  "tag (tags_of glow_spa) ''website'' = ''http://glow.com''"
  "tags_of glow_spa ''leisure'' = Some ''spa''"
  "tag (tags_of glow_spa) ''addr:city'' = []" "tag (tags_of glow_spa) ''is_in:city'' = []"
  "tag (tags_of glow_spa) ''addr:town'' = []" "tag (tags_of glow_spa) ''addr:village'' = []"
  "tag (tags_of glow_annex) ''name'' = ''Glow Annex''"
  "tag (tags_of glow_annex) ''website'' = []"
  "tag (tags_of glow_annex) ''contact:website'' = ''http://glow.com''"
  "tags_of glow_annex ''leisure'' = None" "tags_of glow_annex ''amenity'' = None"
  "tags_of glow_annex ''shop'' = Some ''beauty''"
  "tag (tags_of glow_annex) ''addr:city'' = []" "tag (tags_of glow_annex) ''is_in:city'' = []"
  "tag (tags_of glow_annex) ''addr:town'' = []" "tag (tags_of glow_annex) ''addr:village'' = []"
  by (simp_all add: glow_spa_def glow_annex_def tags_of_def tag_def)

lemma defaultKws_lower: "map toLowerCase (filter (\<lambda>k. k \<noteq> []) defaultKws) = defaultKws"
  by (simp add: defaultKws_def toLowerCase_def lowerChar_def)

lemma glow_notes:
  "evidenceNote (tags_of glow_spa) defaultKws = ''name_keywords=med spa''"
  "evidenceNote (tags_of glow_annex) defaultKws = []"
proof -
  have l: "toLowerCase ''Glow Med Spa'' = ''glow med spa''"
    "toLowerCase ''Glow Annex'' = ''glow annex''"
    by (simp_all add: toLowerCase_def lowerChar_def char_of_def bit_Suc_0_iff)
  show "evidenceNote (tags_of glow_spa) defaultKws = ''name_keywords=med spa''"
    unfolding evidenceNote_def Let_def defaultKws_lower glow_tags l
    by (simp add: defaultKws_def sublist_code prefix_code)
  show "evidenceNote (tags_of glow_annex) defaultKws = []"
    unfolding evidenceNote_def Let_def defaultKws_lower glow_tags l
    by (simp add: defaultKws_def sublist_code prefix_code)
qed

lemma glow_domain: "rootDomain sample_hostname (Some ''http://glow.com'') = ''glow.com''"
  by (rule rootDomain_examples(3))

lemma extractRow_glow:
  "extractRow sample_hostname sample_to_string defaultKws ''San Antonio'' glow_spa = Some glow_row"
  "extractRow sample_hostname sample_to_string defaultKws ''San Antonio'' glow_annex = Some glow_annex_row"
proof -
  show "extractRow sample_hostname sample_to_string defaultKws ''San Antonio'' glow_spa = Some glow_row"
    by (simp add: extractRow_def glow_tags glow_notes glow_domain trim_def isWhiteSpace_def
        categoryFromTags_def cityFromTags_def toFixed_confidence glow_row_def)
      (simp add: glow_spa_def toFixed_samples sample_ids)
  show "extractRow sample_hostname sample_to_string defaultKws ''San Antonio'' glow_annex = Some glow_annex_row"
    by (simp add: extractRow_def glow_tags glow_notes glow_domain trim_def isWhiteSpace_def
        categoryFromTags_def cityFromTags_def toFixed_confidence glow_annex_row_def)
      (simp add: glow_annex_def sample_ids)
qed

lemma glow_rows:
  "extractRows sample_hostname sample_to_string defaultKws ''San Antonio'' [glow_spa, glow_annex] =
     [glow_row, glow_annex_row]"
  "dedupeRows [glow_row, glow_annex_row] = [glow_row]"
  by (simp_all add: extractRows_def extractRow_glow dedupeRows_def dedupe_loop_Cons dedupKey_def
      glow_row_def glow_annex_row_def)

theorem main_reports_errors_witness:
  "normalizeInput (string_to_number (sample_platform net_down))
     (input_of (Some (empty_input\<lparr>bbox_north := JNum (Fin 91)\<rparr>))) =
     Inl (newError ''Invalid bbox coordinates'') \<and>
   main (sample_platform net_down) (Some (empty_input\<lparr>bbox_north := JNum (Fin 91)\<rparr>)) =
     (Inr (), [SetValue_ERROR ''Invalid bbox coordinates'' ''Error: Invalid bbox coordinates'']) \<and>
   normalizeInput (string_to_number (sample_platform net_down)) (input_of None) =
     Inr default_config \<and>
   queryOverpass (fetch (sample_platform net_down))
     (query_of (sample_platform net_down) default_config) =
     (Inl (Error ''fetch failed'' ''TypeError: fetch failed''),
      concat (map (fetch_and_wait (query_of (sample_platform net_down) default_config))
               (schedule OVERPASS_ENDPOINTS))) \<and>
   main (sample_platform net_down) None =
     (Inr (),
      concat (map (fetch_and_wait (query_of (sample_platform net_down) default_config))
               (schedule OVERPASS_ENDPOINTS)) @
      [SetValue_ERROR ''fetch failed'' ''TypeError: fetch failed'']) \<and>
   queryOverpass (fetch (sample_platform net_flaky))
     (query_of (sample_platform net_flaky) default_config) =
     (Inr (Some [glow_spa, glow_annex]),
      concat (map (fetch_and_wait (query_of (sample_platform net_flaky) default_config))
               (take 4 (schedule OVERPASS_ENDPOINTS))) @
      [Fetch ''https://overpass.kumi.systems/api/interpreter''
         (query_of (sample_platform net_flaky) default_config)]) \<and>
   main (sample_platform net_flaky) None =
     (Inr (),
      concat (map (fetch_and_wait (query_of (sample_platform net_flaky) default_config))
               (take 4 (schedule OVERPASS_ENDPOINTS))) @
      [Fetch ''https://overpass.kumi.systems/api/interpreter''
         (query_of (sample_platform net_flaky) default_config),
       PushData [glow_row],
       SetValue_RUN_SUMMARY
         \<lparr>found = 2, deduped = 1, sum_bbox = cfg_bbox default_config,
          sum_keywords = defaultKws, sum_city = ''San Antonio'',
          hint = ''Open the Dataset tab to export CSV.''\<rparr>])"
proof -
  have p: "string_to_number (sample_platform net) = (\<lambda>s. NaN)"
    "url_hostname (sample_platform net) = sample_hostname"
    "value_to_string (sample_platform net) = sample_to_string"
    "fetch (sample_platform net) = net" for net
    by (simp_all add: sample_platform_def)
  have c: "cfg_keywords default_config = defaultKws" "cfg_city default_config = ''San Antonio''"
    by (simp_all add: default_config_def)
  have bad: "normalizeInput (string_to_number (sample_platform net_down))
     (input_of (Some (empty_input\<lparr>bbox_north := JNum (Fin 91)\<rparr>))) =
     Inl (newError ''Invalid bbox coordinates'')"
    by (simp add: p input_of_def normalizeInput_north_91)
  have good: "normalizeInput (string_to_number (sample_platform net)) (input_of None) =
     Inr default_config" for net
    by (simp add: p input_of_def normalizeInput_empty)
  note a = main_reports_errors
    [where pf = "sample_platform net_down"
       and got = "Some (empty_input\<lparr>bbox_north := JNum (Fin 91)\<rparr>)"
       and err = "newError ''Invalid bbox coordinates''",
     THEN conjunct2, THEN conjunct1, rule_format, OF bad]
  note b = main_reports_errors
    [where pf = "sample_platform net_down" and got = None and cfg = default_config
       and err = "Error ''fetch failed'' ''TypeError: fetch failed''"
       and tr = "concat (map (fetch_and_wait (query_of (sample_platform net_down) default_config))
               (schedule OVERPASS_ENDPOINTS))",
     THEN conjunct2, THEN conjunct2, THEN conjunct1, rule_format, THEN conjunct1,
     OF conjI, OF good]
  note s = main_reports_errors
    [where pf = "sample_platform net_flaky" and got = None and cfg = default_config
       and j = "Some [glow_spa, glow_annex]"
       and tr = "concat (map (fetch_and_wait (query_of (sample_platform net_flaky) default_config))
               (take 4 (schedule OVERPASS_ENDPOINTS))) @
          [Fetch ''https://overpass.kumi.systems/api/interpreter''
             (query_of (sample_platform net_flaky) default_config)]",
     THEN conjunct2, THEN conjunct2, THEN conjunct2, rule_format, OF conjI, OF good]
  show ?thesis
    using a b s
    by (simp add: p c input_of_def normalizeInput_north_91 normalizeInput_empty
        queryOverpass_net_down queryOverpass_net_flaky elements_of_def glow_rows newError_def)
qed

end
